theory Spec2Isabelle
  imports Complex_Main "HOL-Library.AList"
begin

section \<open>JavaScript values\<close>

text \<open>
  The module receives its records from \<^verbatim>\<open>JSON.parse\<close>, so the values it handles are the
  JSON ones plus \<^verbatim>\<open>undefined\<close> (a missing property) and the two numbers JSON cannot
  write but \<^verbatim>\<open>Number\<close> can return. A number is \<^verbatim>\<open>NaN\<close>, an infinity or a finite value;
  a finite value is the real number that the double is (the sign of zero is left out). A string is its UTF-8 byte sequence. An object is the list of its own
  properties in insertion order.
\<close>

datatype jsnum = NaN | PosInf | NegInf | Fin real

datatype jsval =
    JUndefined
  | JNull
  | JBool bool
  | JNum jsnum
  | JStr string
  | JArr "jsval list"
  | JObj "(string \<times> jsval) list"

datatype error = TypeError | NetworkError | HttpError nat | SyntaxError | AssertionError

fun typeof :: "jsval \<Rightarrow> string" where
  "typeof JUndefined = ''undefined''"
| "typeof JNull = ''object''"
| "typeof (JBool b) = ''boolean''"
| "typeof (JNum n) = ''number''"
| "typeof (JStr s) = ''string''"
| "typeof (JArr xs) = ''object''"
| "typeof (JObj kvs) = ''object''"

text \<open>\<^verbatim>\<open>ToBoolean\<close>: what \<^verbatim>\<open>||\<close>, \<^verbatim>\<open>!\<close>, \<^verbatim>\<open>if\<close> and \<^verbatim>\<open>filter(Boolean)\<close> test.\<close>

fun truthy :: "jsval \<Rightarrow> bool" where
  "truthy JUndefined = False"
| "truthy JNull = False"
| "truthy (JBool b) = b"
| "truthy (JNum n) = (n \<noteq> NaN \<and> n \<noteq> Fin 0)"
| "truthy (JStr s) = (s \<noteq> [])"
| "truthy (JArr xs) = True"
| "truthy (JObj kvs) = True"

text \<open>\<^verbatim>\<open>a || b\<close> and \<^verbatim>\<open>a ?? b\<close>.\<close>

definition js_or :: "jsval \<Rightarrow> jsval \<Rightarrow> jsval" where
  "js_or a b = (if truthy a then a else b)"

definition nullish :: "jsval \<Rightarrow> bool" where
  "nullish v \<longleftrightarrow> v = JUndefined \<or> v = JNull"

definition js_nc :: "jsval \<Rightarrow> jsval \<Rightarrow> jsval" where
  "js_nc a b = (if nullish a then b else a)"

text \<open>
  \<^verbatim>\<open>v.k\<close> for a \<^verbatim>\<open>v\<close> that is neither \<^verbatim>\<open>null\<close> nor \<^verbatim>\<open>undefined\<close> (on those the read
  throws a TypeError, which the callers below test before their first read). None of the
  property names the module reads on upstream records is defined on the prototypes of
  strings, numbers, booleans or arrays, so only an object can answer.
\<close>

fun getProp :: "jsval \<Rightarrow> string \<Rightarrow> jsval" where
  "getProp (JObj kvs) k = (case map_of kvs k of Some v \<Rightarrow> v | None \<Rightarrow> JUndefined)"
| "getProp v k = JUndefined"

text \<open>\<^verbatim>\<open>Array.isArray(v)\<close> and \<^verbatim>\<open>a[i]\<close> on an array.\<close>

fun isArray :: "jsval \<Rightarrow> bool" where
  "isArray (JArr xs) = True"
| "isArray v = False"

definition at_index :: "jsval list \<Rightarrow> nat \<Rightarrow> jsval" where
  "at_index xs i = (if i < length xs then xs ! i else JUndefined)"

subsection \<open>Doubles\<close>

text \<open>
  The finite numbers of JavaScript are the IEEE doubles: an integer below \<^verbatim>\<open>2^53\<close> times
  a power of two from \<^verbatim>\<open>2^-1074\<close> to \<^verbatim>\<open>2^971\<close>. A decimal literal of the source, a
  parsed text and the result of an arithmetic operation are the double nearest to the
  exact value, ties going to the even integer. \<^verbatim>\<open>dbl\<close> is that rounding for values
  within range: the value is scaled by powers of two until it lies between \<^verbatim>\<open>2^52\<close> and
  \<^verbatim>\<open>2^53\<close> (or the smallest exponent is reached) and rounded there.
\<close>

definition roundHalfEven :: "real \<Rightarrow> int" where
  "roundHalfEven q =
     (let f = \<lfloor>q\<rfloor>; d = q - of_int f in
      if d < 1 / 2 then f else if 1 / 2 < d then f + 1 else if even f then f else f + 1)"

function scaleDown :: "real \<Rightarrow> int \<Rightarrow> real \<times> int" where
  "scaleDown x e = (if x < 2 ^ 53 \<or> 972 \<le> e then (x, e) else scaleDown (x / 2) (e + 1))"
  by pat_completeness auto
termination
  by (relation "measure (\<lambda>(x, e). nat (972 - e))") auto

function scaleUp :: "real \<Rightarrow> int \<Rightarrow> real \<times> int" where
  "scaleUp x e = (if 2 ^ 52 \<le> x \<or> e \<le> - 1074 then (x, e) else scaleUp (x * 2) (e - 1))"
  by pat_completeness auto
termination
  by (relation "measure (\<lambda>(x, e). nat (e + 1074))") auto

definition scale2 :: "real \<Rightarrow> int \<Rightarrow> real" where
  "scale2 m e = (if 0 \<le> e then m * 2 ^ nat e else m / 2 ^ nat (- e))"

definition roundPositive :: "real \<Rightarrow> real" where
  "roundPositive x =
     (case (if 2 ^ 53 \<le> x then scaleDown x 0 else scaleUp x 0) of
        (q, e) \<Rightarrow> scale2 (of_int (roundHalfEven q)) e)"

definition dbl :: "real \<Rightarrow> real" where
  "dbl x = (if x = 0 then 0 else if x < 0 then - roundPositive (- x) else roundPositive x)"

text \<open>The same with overflow: a value that rounds to \<^verbatim>\<open>2^1024\<close> or beyond is an infinity.\<close>

definition toDouble :: "real \<Rightarrow> jsnum" where
  "toDouble x =
     (let y = dbl x in
      if 2 ^ 1024 \<le> y then PosInf else if y \<le> - (2 ^ 1024) then NegInf else Fin y)"

text \<open>\<^verbatim>\<open>a * b\<close> on two doubles whose product is within range.\<close>

definition jsMul :: "real \<Rightarrow> real \<Rightarrow> real" where
  "jsMul a b = dbl (a * b)"

subsection \<open>\<^verbatim>\<open>Number(v)\<close>\<close>

text \<open>
  \<^verbatim>\<open>StringToNumber\<close> of ECMAScript: white space is trimmed, the empty string is 0, then
  a binary, octal or hexadecimal integer or a signed decimal with optional fraction and
  exponent is read and rounded to a double; any other text is \<^verbatim>\<open>NaN\<close>.
\<close>

definition whiteSpace :: "string list" where
  "whiteSpace =
     [[CHR 0x09], [CHR 0x0A], [CHR 0x0B], [CHR 0x0C], [CHR 0x0D], [CHR 0x20],
      [CHR 0xC2, CHR 0xA0], [CHR 0xE1, CHR 0x9A, CHR 0x80],
      [CHR 0xE2, CHR 0x80, CHR 0x80], [CHR 0xE2, CHR 0x80, CHR 0x81],
      [CHR 0xE2, CHR 0x80, CHR 0x82], [CHR 0xE2, CHR 0x80, CHR 0x83],
      [CHR 0xE2, CHR 0x80, CHR 0x84], [CHR 0xE2, CHR 0x80, CHR 0x85],
      [CHR 0xE2, CHR 0x80, CHR 0x86], [CHR 0xE2, CHR 0x80, CHR 0x87],
      [CHR 0xE2, CHR 0x80, CHR 0x88], [CHR 0xE2, CHR 0x80, CHR 0x89],
      [CHR 0xE2, CHR 0x80, CHR 0x8A], [CHR 0xE2, CHR 0x80, CHR 0xA8],
      [CHR 0xE2, CHR 0x80, CHR 0xA9], [CHR 0xE2, CHR 0x80, CHR 0xAF],
      [CHR 0xE2, CHR 0x81, CHR 0x9F], [CHR 0xE3, CHR 0x80, CHR 0x80],
      [CHR 0xEF, CHR 0xBB, CHR 0xBF]]"

function dropWS :: "string list \<Rightarrow> string \<Rightarrow> string" where
  "dropWS ws s =
     (case find (\<lambda>w. w \<noteq> [] \<and> take (length w) s = w) ws of
        None \<Rightarrow> s
      | Some w \<Rightarrow> dropWS ws (drop (length w) s))"
  by pat_completeness auto
termination
proof (relation "measure (\<lambda>(ws, s). length s)")
  show "wf (measure (\<lambda>(ws, s). length s))" by simp
next
  fix ws :: "string list" and s w :: string
  assume "find (\<lambda>w. w \<noteq> [] \<and> take (length w) s = w) ws = Some w"
  then have "w \<noteq> []" and "take (length w) s = w"
    by (auto simp: find_Some_iff)
  then have "s \<noteq> []" and "0 < length w" by auto
  then show "((ws, drop (length w) s), (ws, s)) \<in> measure (\<lambda>(ws, s). length s)"
    by simp
qed

definition trim :: "string \<Rightarrow> string" where
  "trim s = rev (dropWS (map rev whiteSpace) (rev (dropWS whiteSpace s)))"

definition digitVal :: "char \<Rightarrow> nat option" where
  "digitVal c =
     (let n = (of_char c :: nat) in
      if 48 \<le> n \<and> n \<le> 57 then Some (n - 48)
      else if 97 \<le> n \<and> n \<le> 102 then Some (n - 87)
      else if 65 \<le> n \<and> n \<le> 70 then Some (n - 55)
      else None)"

fun digitsVal :: "nat \<Rightarrow> string \<Rightarrow> int \<Rightarrow> int option" where
  "digitsVal b [] acc = Some acc"
| "digitsVal b (c # cs) acc =
     (case digitVal c of
        None \<Rightarrow> None
      | Some d \<Rightarrow> if d < b then digitsVal b cs (acc * int b + int d) else None)"

definition parseDigits :: "nat \<Rightarrow> string \<Rightarrow> int option" where
  "parseDigits b s = (if s = [] then None else digitsVal b s 0)"

definition isDigit :: "char \<Rightarrow> bool" where
  "isDigit c \<longleftrightarrow> (case digitVal c of None \<Rightarrow> False | Some d \<Rightarrow> d < 10)"

definition nonDecimal :: "string \<Rightarrow> int option" where
  "nonDecimal s =
     (case s of
        z # x # ds \<Rightarrow>
          if z \<noteq> CHR ''0'' then None
          else if x = CHR ''x'' \<or> x = CHR ''X'' then parseDigits 16 ds
          else if x = CHR ''o'' \<or> x = CHR ''O'' then parseDigits 8 ds
          else if x = CHR ''b'' \<or> x = CHR ''B'' then parseDigits 2 ds
          else None
      | _ \<Rightarrow> None)"

definition parseExponent :: "string \<Rightarrow> int option" where
  "parseExponent s =
     (case s of
        [] \<Rightarrow> None
      | c # ds \<Rightarrow>
          if c = CHR ''+'' then parseDigits 10 ds
          else if c = CHR ''-'' then map_option (\<lambda>n. - n) (parseDigits 10 ds)
          else parseDigits 10 s)"

definition parseMantissa :: "string \<Rightarrow> real option" where
  "parseMantissa s =
     (let ip = takeWhile isDigit s; r = dropWhile isDigit s;
          nat_of = (\<lambda>ds. case digitsVal 10 ds 0 of Some n \<Rightarrow> real_of_int n | None \<Rightarrow> 0)
      in case r of
           [] \<Rightarrow> if ip = [] then None else Some (nat_of ip)
         | c # fp \<Rightarrow>
             if c = CHR ''.'' \<and> list_all isDigit fp \<and> (ip \<noteq> [] \<or> fp \<noteq> [])
             then Some (nat_of ip + nat_of fp / 10 ^ length fp)
             else None)"

definition scale10 :: "real \<Rightarrow> int \<Rightarrow> real" where
  "scale10 x e = (if 0 \<le> e then x * 10 ^ nat e else x / 10 ^ nat (- e))"

definition parseUnsigned :: "string \<Rightarrow> jsnum" where
  "parseUnsigned s =
     (if s = ''Infinity'' then PosInf
      else
        let notE = (\<lambda>c. c \<noteq> CHR ''e'' \<and> c \<noteq> CHR ''E'') in
        case parseMantissa (takeWhile notE s) of
          None \<Rightarrow> NaN
        | Some x \<Rightarrow>
            (case dropWhile notE s of
               [] \<Rightarrow> toDouble x
             | _ # es \<Rightarrow>
                 (case parseExponent es of
                    None \<Rightarrow> NaN
                  | Some e \<Rightarrow> toDouble (scale10 x e))))"

fun negate :: "jsnum \<Rightarrow> jsnum" where
  "negate NaN = NaN"
| "negate PosInf = NegInf"
| "negate NegInf = PosInf"
| "negate (Fin x) = Fin (- x)"

definition StringToNumber :: "string \<Rightarrow> jsnum" where
  "StringToNumber s =
     (case trim s of
        [] \<Rightarrow> Fin 0
      | c # r \<Rightarrow>
          (case nonDecimal (c # r) of
             Some n \<Rightarrow> toDouble (real_of_int n)
           | None \<Rightarrow>
               if c = CHR ''+'' then parseUnsigned r
               else if c = CHR ''-'' then negate (parseUnsigned r)
               else parseUnsigned (c # r)))"

text \<open>
  \<^verbatim>\<open>ToNumber\<close>. An array is first turned into the string that joins its elements with
  commas: the empty array gives the empty string, a one-element array the string of its
  element (\<^verbatim>\<open>null\<close> and \<^verbatim>\<open>undefined\<close> print as nothing, a number reads back as itself),
  and a longer array a text with a comma, which is no number. A plain object prints as
  \<^verbatim>\<open>[object Object]\<close> (a record that brings a property \<^verbatim>\<open>toString\<close> of its own is not
  considered).
\<close>

fun Number :: "jsval \<Rightarrow> jsnum" where
  "Number JUndefined = NaN"
| "Number JNull = Fin 0"
| "Number (JBool b) = (if b then Fin 1 else Fin 0)"
| "Number (JNum n) = n"
| "Number (JStr s) = StringToNumber s"
| "Number (JArr []) = Fin 0"
| "Number (JArr [x]) =
     (case x of
        JUndefined \<Rightarrow> Fin 0
      | JNull \<Rightarrow> Fin 0
      | JBool b \<Rightarrow> NaN
      | JNum n \<Rightarrow> n
      | JStr s \<Rightarrow> StringToNumber s
      | JArr ys \<Rightarrow> Number (JArr ys)
      | JObj kvs \<Rightarrow> NaN)"
| "Number (JArr (x # y # zs)) = NaN"
| "Number (JObj kvs) = NaN"

section \<open>Features\<close>

text \<open>
  \<^verbatim>\<open>ol.proj.fromLonLat([lon, lat])\<close> belongs to the map library, which is no part of the
  repository: a projected coordinate is kept as the call with its two arguments.
\<close>

datatype coordinate = FromLonLat jsval jsval

datatype geometry = Point coordinate | LineString "coordinate list"

text \<open>
  Styles as the library's constructors receive them: a stroke has a colour and a width
  (no line dash anywhere in the module), an image is a filled circle or an icon.
\<close>

datatype stroke = Stroke string real

datatype image =
    Circle real string stroke
  | Icon string real "real \<times> real" string

record style =
  style_geometry :: "geometry option"
  style_image :: "image option"
  style_stroke :: "stroke option"

text \<open>
  A feature: its geometry, its property bag and its own style. The library keeps the
  geometry under the key \<^verbatim>\<open>geometry\<close> of the same bag; it has a field of its own here,
  and no caller in the module passes a property of that name.
\<close>

record feature =
  geometry :: geometry
  properties :: "(string \<times> jsval) list"
  style :: "style option"

text \<open>
  \<^verbatim>\<open>Object.assign(target, src)\<close> and \<^verbatim>\<open>feature.setProperties(src)\<close>: every property of
  \<^verbatim>\<open>src\<close> is set on the target, in order; a key already there keeps its place.
\<close>

definition assign :: "(string \<times> jsval) list \<Rightarrow> (string \<times> jsval) list \<Rightarrow> (string \<times> jsval) list" where
  "assign target src = fold (\<lambda>(k, v). AList.update k v) src target"

definition createMarker ::
    "jsval \<Rightarrow> jsval \<Rightarrow> string \<Rightarrow> jsval \<Rightarrow> (string \<times> jsval) list \<Rightarrow> feature option" where
  "createMarker lon lat color label props =
     (if typeof lon \<noteq> ''number'' \<or> typeof lat \<noteq> ''number'' then None
      else Some
        \<lparr> geometry = Point (FromLonLat lon lat),
          properties =
            assign [(''name'', label)] (assign (assign [] props) [(''name'', label)]),
          style = Some
            \<lparr> style_geometry = None,
              style_image = Some (Circle 6 color (Stroke ''#fff'' 1)),
              style_stroke = None \<rparr> \<rparr>)"

text \<open>
  \<^verbatim>\<open>for (const pt of (track || []))\<close>: an array gives its elements; a string gives
  strings (byte by byte here, which \<^verbatim>\<open>createLine\<close> skips all the same); anything else
  that is truthy is not iterable.
\<close>

fun iterate :: "jsval \<Rightarrow> error + jsval list" where
  "iterate (JArr xs) = Inr xs"
| "iterate (JStr s) = Inr (map (\<lambda>c. JStr [c]) s)"
| "iterate v = Inl TypeError"

fun collectCoords :: "jsval list \<Rightarrow> coordinate list \<Rightarrow> coordinate list" where
  "collectCoords [] coords = coords"
| "collectCoords (pt # pts) coords =
     (case pt of
        JArr ps \<Rightarrow>
          (let lat = at_index ps 0; lon = at_index ps 1 in
           if typeof lat = ''number'' \<and> typeof lon = ''number''
           then collectCoords pts (coords @ [FromLonLat lon lat])
           else collectCoords pts coords)
      | _ \<Rightarrow> collectCoords pts coords)"

definition createLine ::
    "jsval \<Rightarrow> string \<Rightarrow> (string \<times> jsval) list \<Rightarrow> error + feature option" where
  "createLine track color props =
     (case iterate (js_or track (JArr [])) of
        Inl e \<Rightarrow> Inl e
      | Inr pts \<Rightarrow>
          (let coords = collectCoords pts [] in
           if coords = [] then Inr None
           else Inr (Some
             \<lparr> geometry = LineString coords,
               properties = assign [] props,
               style = Some
                 \<lparr> style_geometry = None,
                   style_image = None,
                   style_stroke = Some (Stroke color 2) \<rparr> \<rparr>)))"

text \<open>
  The claim's words for an orbit track: a well-formed entry is an array whose first two
  elements are numbers, and it stands for the projection of (longitude, latitude), the
  pair being stored latitude first.
\<close>

fun wellFormedPair :: "jsval \<Rightarrow> bool" where
  "wellFormedPair (JArr (JNum lat # JNum lon # rest)) = True"
| "wellFormedPair v = False"

fun projectPair :: "jsval \<Rightarrow> coordinate" where
  "projectPair (JArr (lat # lon # rest)) = FromLonLat lon lat"
| "projectPair v = FromLonLat JUndefined JUndefined"

section \<open>Building the initial layers\<close>

text \<open>
  \<^verbatim>\<open>xs.map(f)\<close> where \<^verbatim>\<open>f\<close> may throw: the first exception ends the loop. A value
  that is no array has no \<^verbatim>\<open>map\<close> method, and the call throws.
\<close>

fun mapE :: "('a \<Rightarrow> error + 'b) \<Rightarrow> 'a list \<Rightarrow> error + 'b list" where
  "mapE f [] = Inr []"
| "mapE f (x # xs) =
     (case f x of
        Inl e \<Rightarrow> Inl e
      | Inr y \<Rightarrow> (case mapE f xs of Inl e \<Rightarrow> Inl e | Inr ys \<Rightarrow> Inr (y # ys)))"

definition arrayMap :: "(jsval \<Rightarrow> error + 'b) \<Rightarrow> jsval \<Rightarrow> error + 'b list" where
  "arrayMap f v = (case v of JArr xs \<Rightarrow> mapE f xs | _ \<Rightarrow> Inl TypeError)"

text \<open>\<^verbatim>\<open>.filter(Boolean)\<close> on an array of features and \<^verbatim>\<open>null\<close>s.\<close>

definition filterBoolean :: "'a option list \<Rightarrow> 'a list" where
  "filterBoolean fs = [f. Some f \<leftarrow> fs]"

text \<open>The callback of \<^verbatim>\<open>(satnogs.stations || []).map\<close>.\<close>

definition stationMarker :: "jsval \<Rightarrow> error + feature option" where
  "stationMarker s =
     (if nullish s then Inl TypeError
      else
        let lon = JNum (Number (js_nc (getProp s ''lon'') (getProp s ''lng'')));
            lat = JNum (Number (getProp s ''lat''))
        in Inr (createMarker lon lat ''blue''
             (js_or (js_or (getProp s ''name'') (getProp s ''callsign'')) (JStr ''Station''))
             [(''type'', JStr ''station''),
              (''id'', js_nc (js_nc (getProp s ''id'') (getProp s ''station_id'')) JNull),
              (''country'', js_nc (js_nc (getProp s ''country'') (getProp s ''cc'')) JNull),
              (''elevation_m'',
                 js_nc (js_nc (getProp s ''elevation_m'') (getProp s ''elevation'')) JNull),
              (''raw'', s)]))"

definition stationFeatures :: "jsval \<Rightarrow> error + feature list" where
  "stationFeatures satnogs =
     (if nullish satnogs then Inl TypeError
      else case arrayMap stationMarker (js_or (getProp satnogs ''stations'') (JArr [])) of
             Inl e \<Rightarrow> Inl e
           | Inr fs \<Rightarrow> Inr (filterBoolean fs))"

text \<open>The callback of \<^verbatim>\<open>(sats || []).map\<close>.\<close>

definition satMarker :: "jsval \<Rightarrow> error + feature option" where
  "satMarker s =
     (if nullish s then Inl TypeError
      else
        let lon = JNum (Number
              (js_nc (js_nc (js_nc (getProp s ''longitude_deg'') (getProp s ''lon''))
                 (getProp s ''lng'')) (getProp s ''longitude'')));
            lat = JNum (Number
              (js_nc (js_nc (getProp s ''latitude_deg'') (getProp s ''lat''))
                 (getProp s ''latitude'')))
        in Inr (createMarker lon lat ''red''
             (js_or (js_or (getProp s ''name'') (getProp s ''satname'')) (JStr ''Satellite''))
             [(''type'', JStr ''satellite''),
              (''id'',
                 js_nc (js_nc (js_nc (getProp s ''id'') (getProp s ''sat_id''))
                   (getProp s ''norad_cat_id'')) JNull),
              (''altitude_km'',
                 js_nc (js_nc (js_nc (getProp s ''altitude_km'') (getProp s ''height_km''))
                   (getProp s ''elevation_km'')) JNull),
              (''tle_line1'', js_nc (js_nc (getProp s ''tle_line1'') (getProp s ''tle1'')) JNull),
              (''tle_line2'', js_nc (js_nc (getProp s ''tle_line2'') (getProp s ''tle2'')) JNull),
              (''raw'', s)]))"

definition satFeatures :: "jsval \<Rightarrow> error + feature list" where
  "satFeatures sats =
     (case arrayMap satMarker (js_or sats (JArr [])) of
        Inl e \<Rightarrow> Inl e
      | Inr fs \<Rightarrow> Inr (filterBoolean fs))"

text \<open>The callback of \<^verbatim>\<open>(orbits || []).map\<close>.\<close>

definition orbitLine :: "jsval \<Rightarrow> error + feature option" where
  "orbitLine orb =
     (if nullish orb then Inl TypeError
      else createLine (js_or (js_or (getProp orb ''track'') (getProp orb ''path'')) (JArr []))
             ''orange''
             [(''type'', JStr ''orbit''),
              (''name'', js_or (js_or (getProp orb ''name'') (getProp orb ''id'')) (JStr ''Orbit'')),
              (''period_min'', js_nc (js_nc (getProp orb ''period_min'') (getProp orb ''period'')) JNull),
              (''raw'', orb)])"

definition orbitFeatures :: "jsval \<Rightarrow> error + feature list" where
  "orbitFeatures orbits =
     (case arrayMap orbitLine (js_or orbits (JArr [])) of
        Inl e \<Rightarrow> Inl e
      | Inr fs \<Rightarrow> Inr (filterBoolean fs))"

section \<open>The page: map layers, live features, panels\<close>

text \<open>
  What the module writes into a panel's \<^verbatim>\<open>innerHTML\<close>: the text of its template
  literals and the strings it computes from the data. The conversions of the platform
  (\<^verbatim>\<open>String\<close>, \<^verbatim>\<open>toFixed\<close>, \<^verbatim>\<open>JSON.stringify\<close> with indent 2,
  \<^verbatim>\<open>encodeURIComponent\<close>) are kept as calls on their arguments, and so is \<^verbatim>\<open>escapeHtml\<close>
  where the module calls it; \<^verbatim>\<open>render\<close> below gives the string. A record that
  brings a property \<^verbatim>\<open>toString\<close> of its own, on which \<^verbatim>\<open>String\<close> throws, is not
  considered.
\<close>

datatype markup =
    Lit string
  | StringOf jsval
  | ToFixed jsnum nat
  | JsonStringify jsval
  | JsonStringifyBag geometry "(string \<times> jsval) list"
  | EscapeHtml markup
  | EncodeURIComponent markup
  | Concat "markup list"

record panel =
  display :: string
  innerHTML :: markup

text \<open>
  The layers of the map. The three tile layers of \<^verbatim>\<open>baseLayers\<close> are known by their key;
  a vector layer by the number it was created under, with the addresses of the features
  of its source. \<^verbatim>\<open>baseLayers[k]\<close> also answers for the names every object inherits,
  with a value that is truthy and no layer.
\<close>

datatype layer = Tile string | Vector nat "nat list" | Inherited string

datatype logline = Warn string error

text \<open>
  The module's variables, the map's layer collection and the three panel elements
  (\<^verbatim>\<open>None\<close> when the page has no such element). Feature objects live in \<^verbatim>\<open>heap\<close>, named
  by their position: the array \<^verbatim>\<open>liveSatFeatures\<close> and the source of the live layer hold
  the same objects.
\<close>

record world =
  heap :: "feature list"
  mapLayers :: "layer list"
  layerCount :: nat
  currentBaseLayer :: layer
  liveSatLayer :: "layer option"
  liveSatFeatures :: "nat list"
  satellite_info :: "panel option"
  ground_station_info :: "panel option"
  orbit_info :: "panel option"
  console :: "logline list"

text \<open>
  \<^verbatim>\<open>new ol.Feature\<close>, for features that a caller is about to store: the objects get
  the next addresses.
\<close>

definition allocate :: "feature list \<Rightarrow> world \<Rightarrow> nat list \<times> world" where
  "allocate fs w =
     ([length (heap w) ..< length (heap w) + length fs], w\<lparr>heap := heap w @ fs\<rparr>)"

definition addLayerFromFeatures :: "nat option list \<Rightarrow> world \<Rightarrow> layer \<times> world" where
  "addLayerFromFeatures features w =
     (let valid = filterBoolean features;
          layer = Vector (layerCount w) valid
      in (layer, w\<lparr>mapLayers := mapLayers w @ [layer], layerCount := Suc (layerCount w)\<rparr>))"

subsection \<open>\<^verbatim>\<open>loadJSON\<close>\<close>

text \<open>
  The answer of \<^verbatim>\<open>fetch\<close>: \<^verbatim>\<open>None\<close> when the request itself fails, else the status
  with its \<^verbatim>\<open>ok\<close> flag and the body as \<^verbatim>\<open>res.json()\<close> reads it (\<^verbatim>\<open>None\<close> when it is
  no JSON).
\<close>

record response =
  ok :: bool
  status :: nat
  json :: "jsval option"

definition loadJSON :: "response option \<Rightarrow> error + jsval" where
  "loadJSON fetched =
     (case fetched of
        None \<Rightarrow> Inl NetworkError
      | Some res \<Rightarrow>
          if \<not> ok res then Inl (HttpError (status res))
          else (case json res of None \<Rightarrow> Inl SyntaxError | Some v \<Rightarrow> Inr v))"

subsection \<open>\<^verbatim>\<open>animateLiveSatellites\<close>\<close>

definition liveLon :: "jsval \<Rightarrow> jsval" where
  "liveLon s = js_nc (js_nc (getProp s ''longitude'') (getProp s ''lon'')) (getProp s ''lng'')"

definition liveLat :: "jsval \<Rightarrow> jsval" where
  "liveLat s = js_nc (getProp s ''latitude'') (getProp s ''lat'')"

text \<open>The callback of \<^verbatim>\<open>data.map\<close>, first response.\<close>

definition liveMarker :: "jsval \<Rightarrow> error + feature option" where
  "liveMarker s =
     (if nullish s then Inl TypeError
      else
        let lon = JNum (Number (liveLon s));
            lat = JNum (Number (liveLat s))
        in Inr (createMarker lon lat ''red'' (js_or (getProp s ''name'') (JStr ''LiveSat''))
             [(''type'', JStr ''satellite''), (''raw'', s),
              (''id'', js_nc (getProp s ''id'') (getProp s ''name''))]))"

text \<open>\<^verbatim>\<open>getGeometry().setCoordinates(c)\<close> on the point of a marker.\<close>

fun setCoordinates :: "coordinate \<Rightarrow> geometry \<Rightarrow> geometry" where
  "setCoordinates c (Point old) = Point c"
| "setCoordinates c (LineString cs) = LineString cs"

text \<open>
  The callback of \<^verbatim>\<open>data.forEach\<close>, later responses. Reading a property of a
  \<^verbatim>\<open>null\<close> entry throws before anything is written.
\<close>

definition moveLive :: "jsval \<Rightarrow> nat \<Rightarrow> world \<Rightarrow> error + world" where
  "moveLive sat i w =
     (if length (liveSatFeatures w) \<le> i then Inr w
      else if nullish sat then Inl TypeError
      else
        let r = liveSatFeatures w ! i;
            lon = JNum (Number (liveLon sat));
            lat = JNum (Number (liveLat sat));
            f = heap w ! r;
            f1 = (if typeof lon = ''number'' \<and> typeof lat = ''number''
                  then f\<lparr>geometry := setCoordinates (FromLonLat lon lat) (geometry f)\<rparr>
                  else f);
            f2 = f1\<lparr>properties :=
                   assign (properties f1) (assign (assign [] (properties f1)) [(''raw'', sat)])\<rparr>
        in Inr (w\<lparr>heap := (heap w)[r := f2]\<rparr>))"

text \<open>
  \<^verbatim>\<open>xs.forEach((x, i) => ...)\<close> from index \<^verbatim>\<open>i\<close> on: an exception ends the loop and
  leaves what the earlier calls wrote.
\<close>

fun forEachFrom ::
    "(jsval \<Rightarrow> nat \<Rightarrow> world \<Rightarrow> error + world) \<Rightarrow> jsval list \<Rightarrow> nat \<Rightarrow> world \<Rightarrow> world \<times> error option" where
  "forEachFrom f [] i w = (w, None)"
| "forEachFrom f (x # xs) i w =
     (case f x i w of
        Inl e \<Rightarrow> (w, Some e)
      | Inr w' \<Rightarrow> forEachFrom f xs (Suc i) w')"

definition warn :: "error \<Rightarrow> world \<Rightarrow> world" where
  "warn e w = w\<lparr>console := console w @ [Warn ''[LIVE SATS] fetch failed:'' e]\<rparr>"

text \<open>
  One tick of the updater, from the answer of its \<^verbatim>\<open>fetch\<close> on: the body runs without
  interruption once the data is there, and its \<^verbatim>\<open>catch\<close> logs every exception.
\<close>

definition animateLiveSatellites :: "response option \<Rightarrow> world \<Rightarrow> world" where
  "animateLiveSatellites fetched w =
     (case loadJSON fetched of
        Inl e \<Rightarrow> warn e w
      | Inr data \<Rightarrow>
          if \<not> truthy data then w
          else if liveSatLayer w = None then
            (case arrayMap liveMarker data of
               Inl e \<Rightarrow> warn e w
             | Inr fs \<Rightarrow>
                 (case allocate (filterBoolean fs) w of
                    (refs, w1) \<Rightarrow>
                      (case addLayerFromFeatures (map Some refs) (w1\<lparr>liveSatFeatures := refs\<rparr>) of
                         (layer, w2) \<Rightarrow> w2\<lparr>liveSatLayer := Some layer\<rparr>)))
          else
            (case data of
               JArr xs \<Rightarrow>
                 (case forEachFrom moveLive xs 0 w of
                    (w', None) \<Rightarrow> w'
                  | (w', Some e) \<Rightarrow> warn e w')
             | _ \<Rightarrow> warn TypeError w))"

text \<open>A response that arrived and parsed.\<close>

definition arrived :: "jsval \<Rightarrow> response option" where
  "arrived v = Some \<lparr>ok = True, status = 200, json = Some v\<rparr>"

text \<open>
  The live features are objects that exist, each once in the array; they are the markers
  that \<^verbatim>\<open>createMarker\<close> made, so their geometry is a point.
\<close>

fun isPoint :: "geometry \<Rightarrow> bool" where
  "isPoint (Point c) = True"
| "isPoint (LineString cs) = False"

definition liveFeaturesOk :: "world \<Rightarrow> bool" where
  "liveFeaturesOk w \<longleftrightarrow>
     distinct (liveSatFeatures w) \<and>
     list_all (\<lambda>r. r < length (heap w) \<and> isPoint (geometry (heap w ! r))) (liveSatFeatures w)"

text \<open>
  What one entry of a later response writes into the feature at its index (the test on
  the types of the two results of \<^verbatim>\<open>Number\<close> always passes).
\<close>

definition moved :: "jsval \<Rightarrow> feature \<Rightarrow> feature" where
  "moved sat f =
     f\<lparr>geometry :=
         setCoordinates (FromLonLat (JNum (Number (liveLon sat))) (JNum (Number (liveLat sat))))
           (geometry f),
       properties :=
         assign (properties f) (assign (assign [] (properties f)) [(''raw'', sat)])\<rparr>"

text \<open>
  The claims' words for an entry with numeric coordinates: an object whose longitude and
  latitude, read through the aliases, are numbers already.
\<close>

definition numericEntry :: "jsval \<Rightarrow> bool" where
  "numericEntry s \<longleftrightarrow> \<not> nullish s \<and> typeof (liveLon s) = ''number'' \<and> typeof (liveLat s) = ''number''"

text \<open>
  The page after the module's first statements: the map holds the OSM tile layer and the
  layer of the observer's marker; no live layer yet.
\<close>

definition observerFeature :: "feature option" where
  "observerFeature =
     createMarker (JNum (Fin (dbl 107.6))) (JNum (Fin (- dbl 6.9))) ''green'' (JStr ''Observer'')
       [(''type'', JStr ''observer''), (''description'', JStr ''Observer location'')]"

definition startWorld :: "panel option \<Rightarrow> panel option \<Rightarrow> panel option \<Rightarrow> world" where
  "startWorld sat gs orb =
     (let w0 = \<lparr> heap = [], mapLayers = [Tile ''osm''], layerCount = 0,
                 currentBaseLayer = Tile ''osm'', liveSatLayer = None, liveSatFeatures = [],
                 satellite_info = sat, ground_station_info = gs, orbit_info = orb,
                 console = [] \<rparr>
      in case observerFeature of
           None \<Rightarrow> w0
         | Some f \<Rightarrow>
             (case allocate [f] w0 of
                (refs, w1) \<Rightarrow> snd (addLayerFromFeatures (map Some refs) w1)))"

section \<open>Detail panels\<close>

definition emDash :: string where
  "emDash = [CHR 0xE2, CHR 0x80, CHR 0x94]"

text \<open>\<^verbatim>\<open>a || b || ...\<close> and \<^verbatim>\<open>a ?? b ?? ...\<close>, which group to the left.\<close>

definition orChain :: "jsval \<Rightarrow> jsval list \<Rightarrow> jsval" where
  "orChain a bs = foldl js_or a bs"

definition ncChain :: "jsval \<Rightarrow> jsval list \<Rightarrow> jsval" where
  "ncChain a bs = foldl js_nc a bs"

text \<open>\<^verbatim>\<open>el?.style.setProperty('display','none')\<close> on an element that may be missing.\<close>

definition hide :: "panel option \<Rightarrow> panel option" where
  "hide el = map_option (\<lambda>p. p\<lparr>display := ''none''\<rparr>) el"

definition clearViewerPanels :: "world \<Rightarrow> world" where
  "clearViewerPanels w =
     w\<lparr>satellite_info := hide (satellite_info w),
       ground_station_info := hide (ground_station_info w),
       orbit_info := hide (orbit_info w)\<rparr>"

text \<open>
  The body of \<^verbatim>\<open>escapeHtml\<close> on the string \<^verbatim>\<open>String(str)\<close>: three global replacements,
  one after the other.
\<close>

definition replaceAll :: "char \<Rightarrow> string \<Rightarrow> string \<Rightarrow> string" where
  "replaceAll c r s = concat (map (\<lambda>x. if x = c then r else [x]) s)"

definition escapeHtml :: "string \<Rightarrow> string" where
  "escapeHtml s =
     replaceAll (CHR ''>'') ''&gt;'' (replaceAll (CHR ''<'') ''&lt;'' (replaceAll (CHR ''&'') ''&amp;'' s))"

definition formatNum :: "jsval \<Rightarrow> nat \<Rightarrow> markup" where
  "formatNum v dp =
     (case v of
        JNum n \<Rightarrow> ToFixed n dp
      | JNull \<Rightarrow> Lit emDash
      | JUndefined \<Rightarrow> Lit emDash
      | _ \<Rightarrow> StringOf v)"

definition readLatLon :: "(string \<times> jsval) list \<Rightarrow> jsval \<times> jsval" where
  "readLatLon props =
     (let P = getProp (JObj props);
          raw = js_or (P ''raw'') (JObj []);
          R = getProp raw;
          latCandidates =
            [R ''latitude'', R ''latitude_deg'', R ''lat'', R ''lat_deg'',
             P ''latitude'', P ''latitude_deg'', P ''lat'', P ''lat_deg''];
          lonCandidates =
            [R ''longitude'', R ''longitude_deg'', R ''lon'', R ''lon_deg'', R ''lng'', R ''lng_deg'',
             P ''longitude'', P ''longitude_deg'', P ''lon'', P ''lon_deg'', P ''lng''];
          lat = find (\<lambda>v. typeof v = ''number'') latCandidates;
          lon = find (\<lambda>v. typeof v = ''number'') lonCandidates
      in (case lat of Some v \<Rightarrow> v | None \<Rightarrow> JNull, case lon of Some v \<Rightarrow> v | None \<Rightarrow> JNull))"

definition smallTableRow :: "string \<Rightarrow> markup \<Rightarrow> markup" where
  \<open>smallTableRow k v =
     Concat
       [Lit (''<tr><td style="vertical-align:top; padding:4px 8px; font-weight:600; color:#cfcfcf">''),
        EscapeHtml (StringOf (JStr k)),
        Lit (''</td><td style="padding:4px 8px; color:#ddd">''),
        v,
        Lit (''</td></tr>'')]\<close>

text \<open>The text \<^verbatim>\<open>showSatelliteInfo\<close> writes into the satellite panel.\<close>

definition satelliteHtml :: "(string \<times> jsval) list \<Rightarrow> markup" where
  \<open>satelliteHtml props =
     (let P = getProp (JObj props);
          raw = js_or (P ''raw'') (JObj []);
          R = getProp raw;
          ident = orChain (P ''id'') [R ''id'', R ''norad_cat_id'', R ''sat_id'', JStr emDash];
          name = orChain (P ''name'') [R ''name'', R ''satname'', JStr ''Unknown''];
          lat = fst (readLatLon props);
          lon = snd (readLatLon props);
          altitude =
            ncChain (P ''altitude_km'')
              [R ''altitude_km'', R ''height_km'', R ''elevation_km'', R ''distance_km'', JStr emDash];
          tle1 = orChain (P ''tle_line1'') [R ''tle_line1'', R ''tle1'', R ''line1'', JStr ''''];
          tle2 = orChain (P ''tle_line2'') [R ''tle_line2'', R ''tle2'', R ''line2'', JStr ''''];
          coordsHtml =
            (if lat \<noteq> JNull \<and> lon \<noteq> JNull
             then Concat
              [formatNum lat 4,
               Lit ([CHR 0xC2, CHR 0xB0] @ '', ''),
               formatNum lon 4,
               Lit ([CHR 0xC2, CHR 0xB0])]
             else Lit emDash)
      in Concat
         [Lit (''\<newline>    <h4>Satellite Information</h4>\<newline>    <table style="width:100%; border-collapse:collapse;">\<newline>      ''),
          smallTableRow ''Name'' (EscapeHtml (StringOf name)),
          Lit (''\<newline>      ''),
          smallTableRow ''ID / NORAD'' (EscapeHtml (StringOf ident)),
          Lit (''\<newline>      ''),
          smallTableRow ''Coordinates'' coordsHtml,
          Lit (''\<newline>      ''),
          smallTableRow ''Altitude (km)''
            (case altitude of JNum n \<Rightarrow> ToFixed n 2 | _ \<Rightarrow> EscapeHtml (StringOf altitude)),
          Lit (''\<newline>    </table>\<newline>    <h5 style="margin:6px 0 4px 0;">TLE / Orbit lines</h5>\<newline>    <pre style="white-space:pre-wrap; color:#ddd; background:#111; padding:6px; border-radius:4px; max-height:160px; overflow:auto;">''),
          EscapeHtml
            (if truthy tle1
             then Concat [StringOf tle1, Lit ''\<newline>'', StringOf (js_or tle2 (JStr ''''))]
             else StringOf (js_or (getProp raw ''tle'') (JStr ''N/A''))),
          Lit (''</pre>\<newline>    <details style="color:#ddd; margin-top:8px;">\<newline>      <summary>Raw data (JSON)</summary>\<newline>      <pre style="white-space:pre-wrap; color:#ddd; background:#111; padding:6px; border-radius:4px; max-height:300px; overflow:auto;">''),
          EscapeHtml (JsonStringify raw),
          Lit (''</pre>\<newline>    </details>\<newline>  '')])\<close>

definition showSatelliteInfo :: "(string \<times> jsval) list \<Rightarrow> world \<Rightarrow> world" where
  "showSatelliteInfo props w =
     (case satellite_info w of
        None \<Rightarrow> w
      | Some el \<Rightarrow>
          w\<lparr>satellite_info := Some (el\<lparr>display := ''block'', innerHTML := satelliteHtml props\<rparr>)\<rparr>)"

text \<open>The text \<^verbatim>\<open>showStationInfo\<close> writes into the ground-station panel.\<close>

definition stationHtml :: "(string \<times> jsval) list \<Rightarrow> markup" where
  \<open>stationHtml props =
     (let P = getProp (JObj props);
          raw = js_or (P ''raw'') (JObj []);
          R = getProp raw;
          name = orChain (P ''name'') [R ''name'', R ''callsign'', JStr ''Ground Station''];
          ident = orChain (P ''id'') [R ''id'', R ''station_id'', R ''callsign'', JStr emDash];
          country = orChain (P ''country'') [R ''country'', R ''cc'', JStr emDash];
          elevation = ncChain (P ''elevation_m'') [R ''elevation_m'', R ''elevation'', JStr emDash];
          lat = fst (readLatLon props);
          lon = snd (readLatLon props);
          coordsHtml =
            (if lat \<noteq> JNull \<and> lon \<noteq> JNull
             then Concat
              [formatNum lat 4,
               Lit ([CHR 0xC2, CHR 0xB0] @ '', ''),
               formatNum lon 4,
               Lit ([CHR 0xC2, CHR 0xB0] @ '' <a style="color:#6fb3ff; margin-left:6px;" href="https://www.google.com/maps/search/?api=1&query=''),
               EncodeURIComponent (Concat [StringOf lat, Lit '','', StringOf lon]),
               Lit (''" target="_blank" rel="noreferrer">view</a>'')]
             else Lit emDash)
      in Concat
         [Lit (''\<newline>    <h4>Ground Station Information</h4>\<newline>    <table style="width:100%; border-collapse:collapse; color:#ddd;">\<newline>      ''),
          smallTableRow ''Name'' (EscapeHtml (StringOf name)),
          Lit (''\<newline>      ''),
          smallTableRow ''Station ID'' (EscapeHtml (StringOf ident)),
          Lit (''\<newline>      ''),
          smallTableRow ''Country'' (EscapeHtml (StringOf country)),
          Lit (''\<newline>      ''),
          smallTableRow ''Coordinates'' coordsHtml,
          Lit (''\<newline>      ''),
          smallTableRow ''Elevation (m)''
            (if typeof elevation = ''number'' then StringOf elevation
             else EscapeHtml (StringOf elevation)),
          Lit (''\<newline>    </table>\<newline>    <details style="color:#ddd; margin-top:8px;">\<newline>      <summary>Raw data (JSON)</summary>\<newline>      <pre style="white-space:pre-wrap; color:#ddd; background:#111; padding:6px; border-radius:4px; max-height:300px; overflow:auto;">''),
          EscapeHtml (JsonStringify raw),
          Lit (''</pre>\<newline>    </details>\<newline>  '')])\<close>

definition showStationInfo :: "(string \<times> jsval) list \<Rightarrow> world \<Rightarrow> world" where
  "showStationInfo props w =
     (case ground_station_info w of
        None \<Rightarrow> w
      | Some el \<Rightarrow>
          w\<lparr>ground_station_info :=
              Some (el\<lparr>display := ''block'', innerHTML := stationHtml props\<rparr>)\<rparr>)"

text \<open>
  \<^verbatim>\<open>pt[i]\<close> for \<^verbatim>\<open>i\<close> 0 or 1 on an entry of a track taken as it comes: the read throws
  on \<^verbatim>\<open>null\<close>, an array gives its element, an object its property of that name, a string
  its character.
\<close>

definition elementAt :: "jsval \<Rightarrow> nat \<Rightarrow> error + jsval" where
  "elementAt pt i =
     (case pt of
        JUndefined \<Rightarrow> Inl TypeError
      | JNull \<Rightarrow> Inl TypeError
      | JArr ps \<Rightarrow> Inr (at_index ps i)
      | JObj kvs \<Rightarrow> Inr (getProp pt [char_of (48 + i)])
      | JStr s \<Rightarrow> Inr (if i < length s then JStr [s ! i] else JUndefined)
      | _ \<Rightarrow> Inr JUndefined)"

text \<open>
  \<^verbatim>\<open>Math.min\<close> and \<^verbatim>\<open>Math.max\<close> of a list of numbers: \<^verbatim>\<open>NaN\<close> as soon as one of them
  is.
\<close>

fun js_le :: "jsnum \<Rightarrow> jsnum \<Rightarrow> bool" where
  "js_le NegInf b = True"
| "js_le a PosInf = True"
| "js_le (Fin x) (Fin y) = (x \<le> y)"
| "js_le a b = False"

definition min2 :: "jsnum \<Rightarrow> jsnum \<Rightarrow> jsnum" where
  "min2 a b = (if a = NaN \<or> b = NaN then NaN else if js_le a b then a else b)"

definition max2 :: "jsnum \<Rightarrow> jsnum \<Rightarrow> jsnum" where
  "max2 a b = (if a = NaN \<or> b = NaN then NaN else if js_le a b then b else a)"

definition mathMin :: "jsnum list \<Rightarrow> jsnum" where
  "mathMin xs = foldl min2 PosInf xs"

definition mathMax :: "jsnum list \<Rightarrow> jsnum" where
  "mathMax xs = foldl max2 NegInf xs"

text \<open>\<^verbatim>\<open>.filter(v => typeof v === 'number')\<close>.\<close>

definition numbers :: "jsval list \<Rightarrow> jsnum list" where
  "numbers vs = [n. JNum n \<leftarrow> vs]"

definition elements :: "jsval \<Rightarrow> jsval list" where
  "elements v = (case v of JArr xs \<Rightarrow> xs | _ \<Rightarrow> [])"

text \<open>
  The text \<^verbatim>\<open>showOrbitInfo\<close> writes into the orbit panel, or the exception of
  \<^verbatim>\<open>track.map(pt => pt[0])\<close> on a track with a \<^verbatim>\<open>null\<close> entry.
\<close>

definition orbitHtml :: "(string \<times> jsval) list \<Rightarrow> error + markup" where
  \<open>orbitHtml props =
     (let P = getProp (JObj props);
          raw = js_or (P ''raw'') (JObj []);
          R = getProp raw;
          name = orChain (P ''name'') [R ''name'', JStr ''Orbit''];
          period = ncChain (P ''period_min'') [R ''period_min'', R ''period'', JStr emDash];
          track = (if isArray (R ''track'') then elements (R ''track'')
                   else if isArray (P ''track'') then elements (P ''track'') else []);
          pts = length track;
          bboxOrError =
            (if pts > 0 then
               (case mapE (\<lambda>pt. elementAt pt 0) track of
                  Inl e \<Rightarrow> Inl e
                | Inr firsts \<Rightarrow>
                    (case mapE (\<lambda>pt. elementAt pt 1) track of
                       Inl e \<Rightarrow> Inl e
                     | Inr seconds \<Rightarrow>
                         (let lats = numbers firsts; lons = numbers seconds in
                          if lats \<noteq> [] \<and> lons \<noteq> []
                          then Inr (Concat
              [formatNum (JNum (mathMin lats)) 3,
               Lit ([CHR 0xC2, CHR 0xB0] @ '', ''),
               formatNum (JNum (mathMin lons)) 3,
               Lit ([CHR 0xC2, CHR 0xB0] @ '' '' @ [CHR 0xE2, CHR 0x86, CHR 0x92] @ '' ''),
               formatNum (JNum (mathMax lats)) 3,
               Lit ([CHR 0xC2, CHR 0xB0] @ '', ''),
               formatNum (JNum (mathMax lons)) 3,
               Lit ([CHR 0xC2, CHR 0xB0])])
                          else Inr (Lit emDash))))
             else Inr (Lit emDash))
      in case bboxOrError of
           Inl e \<Rightarrow> Inl e
         | Inr bbox \<Rightarrow> Inr (Concat
         [Lit (''\<newline>    <h4>Orbit Information</h4>\<newline>    <table style="width:100%; border-collapse:collapse; color:#ddd;">\<newline>      ''),
          smallTableRow ''Name'' (EscapeHtml (StringOf name)),
          Lit (''\<newline>      ''),
          smallTableRow ''Approx. Period (min)''
            (if typeof period = ''number'' then StringOf period
             else EscapeHtml (StringOf period)),
          Lit (''\<newline>      ''),
          smallTableRow ''Track Points'' (StringOf (JNum (Fin (real pts)))),
          Lit (''\<newline>      ''),
          smallTableRow ''Bounding Box'' bbox,
          Lit (''\<newline>    </table>\<newline>    <details style="color:#ddd; margin-top:8px;">\<newline>      <summary>Raw data (JSON)</summary>\<newline>      <pre style="white-space:pre-wrap; color:#ddd; background:#111; padding:6px; border-radius:4px; max-height:400px; overflow:auto;">''),
          EscapeHtml (JsonStringify raw),
          Lit (''</pre>\<newline>    </details>\<newline>  '')]))\<close>

definition showOrbitInfo :: "(string \<times> jsval) list \<Rightarrow> world \<Rightarrow> world" where
  "showOrbitInfo props w =
     (case orbit_info w of
        None \<Rightarrow> w
      | Some el \<Rightarrow>
          (case orbitHtml props of
             Inl e \<Rightarrow> w\<lparr>orbit_info := Some (el\<lparr>display := ''block''\<rparr>)\<rparr>
           | Inr html \<Rightarrow> w\<lparr>orbit_info := Some (el\<lparr>display := ''block'', innerHTML := html\<rparr>)\<rparr>))"

subsection \<open>The click handler\<close>

text \<open>
  The type of a feature as both \<^verbatim>\<open>makeFeatureStyle\<close> and the click handler resolve it:
  the property \<^verbatim>\<open>type\<close> when it is truthy, else by the kind of geometry.
\<close>

definition resolveType :: "feature \<Rightarrow> jsval" where
  "resolveType f =
     js_or (getProp (JObj (properties f)) ''type'')
       (JStr (case geometry f of
                LineString cs \<Rightarrow> ''orbit''
              | Point c \<Rightarrow>
                  if getProp (JObj (properties f)) ''name'' = JStr ''Observer''
                  then ''observer'' else ''unknown''))"

definition observerLocation :: "jsval list" where
  "observerLocation = [JNum (Fin (dbl 107.6)), JNum (Fin (- dbl 6.9))]"

definition observerHtml :: "(string \<times> jsval) list \<Rightarrow> markup" where
  \<open>observerHtml props =
     Concat
         [Lit (''<h4>Observer</h4><p>''),
          EscapeHtml (StringOf (js_or (getProp (JObj props) ''description'') (JStr ''Observer location''))),
          Lit (''</p><p><b>Coordinates:</b> ''),
          formatNum (at_index observerLocation 1) 4,
          Lit ('', ''),
          formatNum (at_index observerLocation 0) 4,
          Lit (''</p>'')]\<close>

definition unknownHtml :: "geometry \<Rightarrow> (string \<times> jsval) list \<Rightarrow> markup" where
  \<open>unknownHtml geom props =
     Concat
         [Lit (''<h4>Feature</h4><pre style="white-space:pre-wrap; color:#ddd; background:#111; padding:6px; border-radius:4px;">''),
          EscapeHtml (JsonStringifyBag geom props),
          Lit (''</pre>'')]\<close>

definition showInSatellitePanel :: "markup \<Rightarrow> world \<Rightarrow> world" where
  "showInSatellitePanel html w =
     (case satellite_info w of
        None \<Rightarrow> w
      | Some el \<Rightarrow> w\<lparr>satellite_info := Some (el\<lparr>display := ''block'', innerHTML := html\<rparr>)\<rparr>)"

text \<open>
  The handler of \<^verbatim>\<open>singleclick\<close>, given what the library's hit test found at the pixel:
  a feature or nothing.
\<close>

definition singleclick :: "feature option \<Rightarrow> world \<Rightarrow> world" where
  "singleclick hit w =
     (case hit of
        None \<Rightarrow> clearViewerPanels w
      | Some feature \<Rightarrow>
          (let props = properties feature;
               type = resolveType feature;
               w1 = clearViewerPanels w
           in if type = JStr ''satellite'' then showSatelliteInfo props w1
              else if type = JStr ''station'' \<or> type = JStr ''ground_station''
                then showStationInfo props w1
              else if type = JStr ''orbit'' then showOrbitInfo props w1
              else if type = JStr ''observer'' then showInSatellitePanel (observerHtml props) w1
              else showInSatellitePanel (unknownHtml (geometry feature) props) w1))"

definition visible :: "panel option \<Rightarrow> bool" where
  "visible el \<longleftrightarrow> (case el of None \<Rightarrow> False | Some p \<Rightarrow> display p \<noteq> ''none'')"

text \<open>How many of the three panels show.\<close>

definition panelsVisible :: "world \<Rightarrow> nat" where
  "panelsVisible w =
     length (filter visible [satellite_info w, ground_station_info w, orbit_info w])"

text \<open>
  Where a renderer puts a string into the panel: template text is the module's own;
  a number prints as digits; anything else is upstream text and has to be inside
  \<^verbatim>\<open>escapeHtml\<close> (or \<^verbatim>\<open>encodeURIComponent\<close>).
\<close>

fun escaped :: "markup \<Rightarrow> bool" where
  "escaped (Lit s) = True"
| "escaped (StringOf v) = (typeof v = ''number'')"
| "escaped (ToFixed n dp) = True"
| "escaped (JsonStringify v) = False"
| "escaped (JsonStringifyBag g ps) = False"
| "escaped (EscapeHtml m) = True"
| "escaped (EncodeURIComponent m) = True"
| "escaped (Concat ms) = (\<forall>m \<in> set ms. escaped m)"

section \<open>Basemap switcher\<close>







section \<open>Styles by feature type\<close>

datatype styles = Single style | Several "style list"

definition ICONS_station :: string where
  "ICONS_station = ''assets/antenna.png''"

definition ICONS_satellite :: string where
  "ICONS_satellite = ''assets/satellite.png''"

definition makeFeatureStyle :: "feature \<Rightarrow> bool \<Rightarrow> styles" where
  "makeFeatureStyle feature hover =
     (let P = getProp (JObj (properties feature));
          type = resolveType feature;
          hoverMul = (if hover then dbl 1.4 else dbl 1.0)
      in if type = JStr ''observer'' then
           Single \<lparr> style_geometry = None,
                    style_image = Some (Circle (jsMul 7 hoverMul) ''green'' (Stroke ''#fff'' 1)),
                    style_stroke = None \<rparr>
         else if type = JStr ''station'' then
           Single \<lparr> style_geometry = None,
                    style_image =
                      Some (Icon ICONS_station (jsMul (dbl 0.08) hoverMul) (0.5, 1) ''anonymous''),
                    style_stroke = None \<rparr>
         else if type = JStr ''satellite'' then
           Single \<lparr> style_geometry = None,
                    style_image =
                      Some (Icon ICONS_satellite (jsMul (dbl 0.06) hoverMul) (0.5, 0.5)
                              ''anonymous''),
                    style_stroke = None \<rparr>
         else if type = JStr ''orbit'' then
           (let raw = js_or (P ''raw'') (JObj []);
                track = (if isArray (getProp raw ''track'') then elements (getProp raw ''track'')
                         else if isArray (P ''track'') then elements (P ''track'') else []);
                coords =
                  (if track \<noteq> [] \<and> isArray (at_index track 0) \<and>
                      typeof (at_index (elements (at_index track 0)) 0) = ''number'' \<and>
                      typeof (at_index (elements (at_index track 0)) 1) = ''number''
                   then Some (FromLonLat (at_index (elements (at_index track 0)) 1)
                                (at_index (elements (at_index track 0)) 0))
                   else None);
                styles =
                  [\<lparr> style_geometry = None, style_image = None,
                     style_stroke = Some (Stroke (if hover then ''#ffa500'' else ''orange'')
                                            (if hover then 4 else 2)) \<rparr>]
            in case coords of
                 None \<Rightarrow> Several styles
               | Some c \<Rightarrow>
                   Several (styles @
                     [\<lparr> style_geometry = Some (Point c),
                        style_image =
                          Some (Icon ICONS_satellite (jsMul (dbl 0.06) hoverMul) (0.5, 0.5)
                                  ''anonymous''),
                        style_stroke = None \<rparr>]))
         else
           Single \<lparr> style_geometry = None,
                    style_image = Some (Circle (jsMul 6 hoverMul) ''gray'' (Stroke ''#fff'' 1)),
                    style_stroke = None \<rparr>)"

text \<open>
  What hovering does to a style: the size of an icon or a circle is multiplied by 1.4,
  as doubles are; the stroke of a line gets the hover colour and the width 4.
\<close>

fun hoverImage :: "image \<Rightarrow> image" where
  "hoverImage (Circle radius fill outline) = Circle (jsMul radius (dbl 1.4)) fill outline"
| "hoverImage (Icon src scale anchor crossOrigin) =
     Icon src (jsMul scale (dbl 1.4)) anchor crossOrigin"

fun hoverStroke :: "stroke \<Rightarrow> stroke" where
  "hoverStroke (Stroke color width) = Stroke ''#ffa500'' 4"

definition hoverStyle :: "style \<Rightarrow> style" where
  "hoverStyle s =
     s\<lparr> style_image := map_option hoverImage (style_image s),
        style_stroke := map_option hoverStroke (style_stroke s) \<rparr>"

fun hoverStyles :: "styles \<Rightarrow> styles" where
  "hoverStyles (Single s) = Single (hoverStyle s)"
| "hoverStyles (Several ss) = Several (map hoverStyle ss)"

text \<open>
  The colour a CSS colour string stands for, as red, green and blue, for the forms the
  module writes: three or six hexadecimal digits, and the names it uses with their values
  in the CSS colour table.
\<close>

definition cssColor :: "string \<Rightarrow> (nat \<times> nat \<times> nat) option" where
  "cssColor s =
     (case s of
        [] \<Rightarrow> None
      | c # ds \<Rightarrow>
          if c = CHR ''#'' then
            (case map digitVal ds of
               [Some r, Some g, Some b] \<Rightarrow> Some (17 * r, 17 * g, 17 * b)
             | [Some r1, Some r0, Some g1, Some g0, Some b1, Some b0] \<Rightarrow>
                 Some (16 * r1 + r0, 16 * g1 + g0, 16 * b1 + b0)
             | _ \<Rightarrow> None)
          else map_of
            [(''orange'', (255, 165, 0)), (''green'', (0, 128, 0)), (''gray'', (128, 128, 128)),
             (''blue'', (0, 0, 255)), (''red'', (255, 0, 0))] s)"

text \<open>
  The string a text stands for, given the conversions of the platform. \<^verbatim>\<open>pieces\<close> cuts
  it into the template text (marked \<^verbatim>\<open>True\<close>) and the strings put between it.
\<close>

record platform =
  toString :: "jsval \<Rightarrow> string"
  toFixed :: "jsnum \<Rightarrow> nat \<Rightarrow> string"
  stringify :: "jsval \<Rightarrow> string"
  stringifyBag :: "geometry \<Rightarrow> (string \<times> jsval) list \<Rightarrow> string"
  encodeURIComponent :: "string \<Rightarrow> string"

fun render :: "platform \<Rightarrow> markup \<Rightarrow> string" where
  "render p (Lit s) = s"
| "render p (StringOf v) = toString p v"
| "render p (ToFixed n dp) = toFixed p n dp"
| "render p (JsonStringify v) = stringify p v"
| "render p (JsonStringifyBag g ps) = stringifyBag p g ps"
| "render p (EscapeHtml m) = escapeHtml (render p m)"
| "render p (EncodeURIComponent m) = encodeURIComponent p (render p m)"
| "render p (Concat ms) = concat (map (render p) ms)"

fun pieces :: "platform \<Rightarrow> markup \<Rightarrow> (bool \<times> string) list" where
  "pieces p (Lit s) = [(True, s)]"
| "pieces p (Concat ms) = concat (map (pieces p) ms)"
| "pieces p m = [(False, render p m)]"

definition angleFree :: "string \<Rightarrow> bool" where
  "angleFree t \<longleftrightarrow> CHR ''<'' \<notin> set t \<and> CHR ''>'' \<notin> set t"

text \<open>
  A platform whose prints of numbers and whose URI encoding have no angle bracket, as
  those of every browser.
\<close>

definition platformPlain :: "platform \<Rightarrow> bool" where
  "platformPlain p \<longleftrightarrow>
     (\<forall>n. angleFree (toString p (JNum n))) \<and>
     (\<forall>n dp. angleFree (toFixed p n dp)) \<and>
     (\<forall>s. angleFree (encodeURIComponent p s))"

section \<open>Rounding to doubles\<close>

declare scaleUp.simps [simp del] scaleDown.simps [simp del]

lemma scaleUp_steps:
  "2 ^ 52 \<le> x * 2 ^ k \<Longrightarrow> x * 2 ^ k < 2 ^ 53 \<Longrightarrow> - 1074 \<le> e - int k \<Longrightarrow>
   scaleUp x e = (x * 2 ^ k, e - int k)"
proof (induction k arbitrary: x e)
  case 0
  then show ?case by (subst scaleUp.simps) simp
next
  case (Suc k)
  from Suc.prems have big: "2 ^ 52 \<le> (x * 2) * 2 ^ k" and small: "(x * 2) * 2 ^ k < 2 ^ 53"
    and room: "- 1074 \<le> (e - 1) - int k"
    by (simp_all add: mult.assoc)
  have "(1::real) \<le> 2 ^ k" by simp
  with small have "x * 2 < 2 ^ 53"
    by (smt (verit) mult_left_mono mult_cancel_left1 zero_less_power big)
  then have x: "\<not> 2 ^ 52 \<le> x" by simp
  from Suc.prems(3) have e: "\<not> e \<le> - 1074" by simp
  from x e have "scaleUp x e = scaleUp (x * 2) (e - 1)"
    by (subst scaleUp.simps) simp
  also have "\<dots> = ((x * 2) * 2 ^ k, (e - 1) - int k)"
    by (rule Suc.IH [OF big small room])
  finally show ?case by (simp add: mult.assoc)
qed

lemma roundHalfEven_near:
  assumes near: "\<bar>q - of_int m\<bar> < 1 / 2"
  shows "roundHalfEven q = m"
proof (cases "of_int m \<le> q")
  case True
  with near have "q < of_int m + 1" by linarith
  with True have f: "\<lfloor>q\<rfloor> = m" by (simp add: floor_unique)
  from near True have "q - of_int m < 1 / 2" by linarith
  with f show ?thesis by (simp add: roundHalfEven_def Let_def)
next
  case False
  with near have lo: "of_int (m - 1) \<le> q" and hi: "q < of_int (m - 1) + 1"
    by simp_all
  then have f: "\<lfloor>q\<rfloor> = m - 1" by (rule floor_unique)
  from near False have "1 / 2 < q - of_int (m - 1)" by simp
  with f show ?thesis by (simp add: roundHalfEven_def Let_def)
qed

lemma scale2_neg: "scale2 y (- int k) = y / 2 ^ k"
  by (auto simp: scale2_def)

text \<open>
  The double of a positive value below \<^verbatim>\<open>2^53\<close>, from the power of two that scales it
  and the integer next to the scaled value.
\<close>

lemma dbl_eq:
  assumes "0 < x" and "2 ^ 52 \<le> x * 2 ^ k" and "x * 2 ^ k < 2 ^ 53" and "k \<le> 1074"
    and "\<bar>x * 2 ^ k - of_int m\<bar> < 1 / 2"
  shows "dbl x = of_int m / 2 ^ k"
proof -
  have "(1::real) \<le> 2 ^ k" by simp
  with assms(3) assms(1) have "x < 2 ^ 53"
    by (smt (verit) mult_left_mono mult_cancel_left1)
  moreover from assms(2,3,4) have "scaleUp x 0 = (x * 2 ^ k, 0 - int k)"
    by (intro scaleUp_steps) simp_all
  moreover from assms(5) have "roundHalfEven (x * 2 ^ k) = m" by (rule roundHalfEven_near)
  ultimately have "roundPositive x = of_int m / 2 ^ k"
    by (simp add: roundPositive_def scale2_neg)
  with assms(1) show ?thesis by (simp add: dbl_def)
qed

lemma dbl_1: "dbl 1 = 1"
  using dbl_eq [of 1 52 "2 ^ 52"] by simp

lemma dbl_6: "dbl 6 = 6"
  using dbl_eq [of 6 50 "6 * 2 ^ 50"] by simp

lemma dbl_7: "dbl 7 = 7"
  using dbl_eq [of 7 50 "7 * 2 ^ 50"] by simp

lemma jsMul_1: "jsMul x 1 = dbl x"
  by (simp add: jsMul_def)

text \<open>The doubles that the source writes \<^verbatim>\<open>0.08\<close>, \<^verbatim>\<open>0.06\<close> and \<^verbatim>\<open>1.4\<close>.\<close>

lemma dbl_008: "dbl 0.08 = 5764607523034235 / 72057594037927936"
  using dbl_eq [of "0.08" 56 5764607523034235] by simp

lemma dbl_006: "dbl 0.06 = 1080863910568919 / 18014398509481984"
  using dbl_eq [of "0.06" 57 8646911284551352] by simp

lemma dbl_14: "dbl 1.4 = 3152519739159347 / 2251799813685248"
  using dbl_eq [of "1.4" 52 6305039478318694] by simp

lemma dbl_dbl_008: "dbl (dbl 0.08) = dbl 0.08"
proof -
  have "dbl (5764607523034235 / 72057594037927936) = 5764607523034235 / 72057594037927936"
    using dbl_eq [of "5764607523034235 / 72057594037927936" 56 5764607523034235] by simp
  then show ?thesis unfolding dbl_008 .
qed

lemma dbl_dbl_006: "dbl (dbl 0.06) = dbl 0.06"
proof -
  have "dbl (1080863910568919 / 18014398509481984) = 1080863910568919 / 18014398509481984"
    using dbl_eq [of "1080863910568919 / 18014398509481984" 57 8646911284551352] by simp
  then show ?thesis unfolding dbl_006 .
qed

text \<open>
  The product \<^verbatim>\<open>0.06 * 1.4\<close> as the doubles give it, which prints
  \<^verbatim>\<open>0.08399999999999999\<close>, below the real 0.084.
\<close>

lemma jsMul_006_14: "jsMul (dbl 0.06) (dbl 1.4) = 3026418949592973 / 36028797018963968"
proof -
  have "dbl (1080863910568919 / 18014398509481984 * (3152519739159347 / 2251799813685248)) = 3026418949592973 / 36028797018963968"
    using dbl_eq [of "1080863910568919 / 18014398509481984 * (3152519739159347 / 2251799813685248)" 56 6052837899185946] by simp
  then show ?thesis unfolding jsMul_def dbl_006 dbl_14 .
qed

lemma jsMul_006_14_below: "jsMul (dbl 0.06) (dbl 1.4) < 0.084"
  unfolding jsMul_006_14 by simp

section \<open>Markers of stations and satellites\<close>

lemma StringToNumber_bad: "StringToNumber ''bad'' = NaN"
  by code_simp

text \<open>
  \<^verbatim>\<open>Number\<close> returns a number whatever it is given, \<^verbatim>\<open>NaN\<close> included, so the test of
  \<^verbatim>\<open>createMarker\<close> on the types of its coordinates never fails behind it: every record
  that is not \<^verbatim>\<open>null\<close> gets a marker.
\<close>

lemma createMarker_Number:
  "createMarker (JNum x) (JNum y) color label props \<noteq> None"
  by (simp add: createMarker_def)

lemma stationMarker_never_drops: "stationMarker s \<noteq> Inr None"
  by (simp add: stationMarker_def createMarker_def Let_def)

lemma satMarker_never_drops: "satMarker s \<noteq> Inr None"
  by (simp add: satMarker_def createMarker_def Let_def)

text \<open>
  C1. The record \<^verbatim>\<open>{name:"X", lat:10, lon:20}\<close> gets its marker at the projection of
  (20, 10). The record \<^verbatim>\<open>{name:"Y", lat:"bad", lon:20}\<close>, whose latitude is no number,
  is not dropped as the claim says: it gets a marker too, at latitude \<^verbatim>\<open>NaN\<close>. So does
  the record \<^verbatim>\<open>{name:"Z"}\<close>, which has no coordinate at all.
\<close>

theorem stationFeatures_bad_latitude:
  "stationFeatures (JObj [(''stations'',
       JArr [JObj [(''name'', JStr ''X''), (''lat'', JNum (Fin 10)), (''lon'', JNum (Fin 20))],
             JObj [(''name'', JStr ''Y''), (''lat'', JStr ''bad''), (''lon'', JNum (Fin 20))],
             JObj [(''name'', JStr ''Z'')]])]) =
   Inr [\<lparr> geometry = Point (FromLonLat (JNum (Fin 20)) (JNum (Fin 10))),
          properties =
            [(''name'', JStr ''X''), (''type'', JStr ''station''), (''id'', JNull),
             (''country'', JNull), (''elevation_m'', JNull),
             (''raw'', JObj [(''name'', JStr ''X''), (''lat'', JNum (Fin 10)),
                             (''lon'', JNum (Fin 20))])],
          style = Some \<lparr> style_geometry = None,
                         style_image = Some (Circle 6 ''blue'' (Stroke ''#fff'' 1)),
                         style_stroke = None \<rparr> \<rparr>,
        \<lparr> geometry = Point (FromLonLat (JNum (Fin 20)) (JNum NaN)),
          properties =
            [(''name'', JStr ''Y''), (''type'', JStr ''station''), (''id'', JNull),
             (''country'', JNull), (''elevation_m'', JNull),
             (''raw'', JObj [(''name'', JStr ''Y''), (''lat'', JStr ''bad''),
                             (''lon'', JNum (Fin 20))])],
          style = Some \<lparr> style_geometry = None,
                         style_image = Some (Circle 6 ''blue'' (Stroke ''#fff'' 1)),
                         style_stroke = None \<rparr> \<rparr>,
        \<lparr> geometry = Point (FromLonLat (JNum NaN) (JNum NaN)),
          properties =
            [(''name'', JStr ''Z''), (''type'', JStr ''station''), (''id'', JNull),
             (''country'', JNull), (''elevation_m'', JNull),
             (''raw'', JObj [(''name'', JStr ''Z'')])],
          style = Some \<lparr> style_geometry = None,
                         style_image = Some (Circle 6 ''blue'' (Stroke ''#fff'' 1)),
                         style_stroke = None \<rparr> \<rparr>]"
  by (simp add: stationFeatures_def arrayMap_def stationMarker_def createMarker_def
      js_or_def js_nc_def nullish_def assign_def filterBoolean_def StringToNumber_bad Let_def)

section \<open>Orbit tracks\<close>

lemma typeof_number: "typeof v = ''number'' \<longleftrightarrow> (\<exists>n. v = JNum n)"
  by (cases v) simp_all

lemma wellFormedPair_iff:
  "wellFormedPair pt \<longleftrightarrow>
     (\<exists>ps. pt = JArr ps \<and> typeof (at_index ps 0) = ''number'' \<and> typeof (at_index ps 1) = ''number'')"
proof (cases pt)
  case (JArr ps)
  show ?thesis
  proof (cases ps)
    case Nil
    with JArr show ?thesis by (simp add: at_index_def)
  next
    case (Cons a qs)
    note outer = Cons
    show ?thesis
    proof (cases qs)
      case Nil
      with JArr outer show ?thesis by (cases a) (simp_all add: at_index_def)
    next
      case (Cons b rest)
      with JArr outer show ?thesis
        by (cases a; cases b) (simp_all add: at_index_def)
    qed
  qed
qed simp_all

lemma projectPair_at:
  "wellFormedPair (JArr ps) \<Longrightarrow> projectPair (JArr ps) = FromLonLat (at_index ps 1) (at_index ps 0)"
  by (cases "JArr ps" rule: wellFormedPair.cases) (simp_all add: at_index_def)

lemma collectCoords_filter:
  "collectCoords pts coords = coords @ map projectPair (filter wellFormedPair pts)"
proof (induction pts arbitrary: coords)
  case Nil
  show ?case by simp
next
  case (Cons pt pts)
  show ?case
  proof (cases "wellFormedPair pt")
    case True
    then obtain ps where pt: "pt = JArr ps"
      and num: "typeof (at_index ps 0) = ''number''" "typeof (at_index ps 1) = ''number''"
      by (auto simp: wellFormedPair_iff)
    from True pt have "projectPair pt = FromLonLat (at_index ps 1) (at_index ps 0)"
      by (simp add: projectPair_at)
    with True pt num Cons.IH show ?thesis by simp
  next
    case False
    show ?thesis
    proof (cases pt)
      case (JArr ps)
      with False have "\<not> (typeof (at_index ps 0) = ''number'' \<and> typeof (at_index ps 1) = ''number'')"
        by (simp add: wellFormedPair_iff)
      with False JArr Cons.IH show ?thesis by (simp add: Let_def)
    qed (use False Cons.IH in simp_all)
  qed
qed

text \<open>
  C4. For a track that is an array, \<^verbatim>\<open>createLine\<close> returns a line feature exactly when some
  entry is an array whose first two elements are numbers; the line's geometry is then the
  projection of those entries, in their order, every other entry skipped. A track without
  such an entry gives \<^verbatim>\<open>null\<close>.
\<close>

theorem createLine_track:
  "createLine (JArr pts) color props =
     Inr (if \<exists>pt \<in> set pts. wellFormedPair pt
          then Some
            \<lparr> geometry = LineString (map projectPair (filter wellFormedPair pts)),
              properties = assign [] props,
              style = Some
                \<lparr> style_geometry = None, style_image = None,
                  style_stroke = Some (Stroke color 2) \<rparr> \<rparr>
          else None)"
proof -
  have "(filter wellFormedPair pts = []) \<longleftrightarrow> \<not> (\<exists>pt \<in> set pts. wellFormedPair pt)"
    by (simp add: filter_empty_conv)
  then show ?thesis
    by (simp add: createLine_def js_or_def collectCoords_filter Let_def)
qed

theorem createLine_track_witness:
  "createLine (JArr [JNull, JArr [JNum (Fin 1), JNum (Fin 2)], JArr [JStr ''x'', JNum (Fin 3)],
                     JArr [JNum (Fin 4)], JArr [JNum (Fin 5), JNum (Fin 6), JNum (Fin 7)]])
       ''orange'' [(''type'', JStr ''orbit'')] =
     Inr (Some
       \<lparr> geometry = LineString [FromLonLat (JNum (Fin 2)) (JNum (Fin 1)),
                                FromLonLat (JNum (Fin 6)) (JNum (Fin 5))],
         properties = [(''type'', JStr ''orbit'')],
         style = Some
           \<lparr> style_geometry = None, style_image = None,
             style_stroke = Some (Stroke ''orange'' 2) \<rparr> \<rparr>)
   \<and> createLine (JArr [JNull, JArr [JStr ''1'', JStr ''2''], JArr [], JObj []]) ''orange'' [] = Inr None"
  using createLine_track [of "[JNull, JArr [JNum (Fin 1), JNum (Fin 2)], JArr [JStr ''x'', JNum (Fin 3)],
                     JArr [JNum (Fin 4)], JArr [JNum (Fin 5), JNum (Fin 6), JNum (Fin 7)]]"
                     "''orange''" "[(''type'', JStr ''orbit'')]"]
        createLine_track [of "[JNull, JArr [JStr ''1'', JStr ''2''], JArr [], JObj []]" "''orange''" "[]"]
  by (simp add: assign_def)

section \<open>The live updater\<close>

lemma assign_Nil: "assign t [] = t"
  by (simp add: assign_def)

lemma assign_Cons: "assign t ((k, v) # s) = assign (AList.update k v t) s"
  by (simp add: assign_def)

lemma map_of_assign_other: "k \<notin> fst ` set s \<Longrightarrow> map_of (assign t s) k = map_of t k"
proof (induction s arbitrary: t)
  case Nil
  show ?case by (simp add: assign_Nil)
next
  case (Cons p s)
  obtain k' v' where p: "p = (k', v')" by (cases p)
  with Cons.prems have "k' \<noteq> k" and "k \<notin> fst ` set s" by auto
  with Cons.IH [of "AList.update k' v' t"] p show ?case
    by (simp add: assign_Cons update_conv')
qed

lemma map_of_assign_last:
  "map_of (assign t (s @ [(k, v)])) k = Some v"
  by (simp add: assign_def update_conv')

lemma assign_single: "assign t [(k, v)] = AList.update k v t"
  by (simp add: assign_def)

lemma distinct_assign: "distinct (map fst t) \<Longrightarrow> distinct (map fst (assign t s))"
proof (induction s arbitrary: t)
  case Nil then show ?case by (simp add: assign_Nil)
next
  case (Cons p s)
  obtain k v where "p = (k, v)" by (cases p)
  with Cons show ?case by (simp add: assign_Cons distinct_update)
qed

lemma map_of_assign_mem:
  "distinct (map fst s) \<Longrightarrow> (k, v) \<in> set s \<Longrightarrow> map_of (assign t s) k = Some v"
proof (induction s arbitrary: t)
  case Nil then show ?case by simp
next
  case (Cons p s)
  obtain k' v' where p: "p = (k', v')" by (cases p)
  show ?case
  proof (cases "(k, v) \<in> set s")
    case True
    with Cons p show ?thesis by (simp add: assign_Cons)
  next
    case False
    with Cons.prems p have eq: "k' = k" "v' = v" by auto
    from Cons.prems p eq have "k \<notin> fst ` set s" by auto
    then have "map_of (assign (AList.update k v t) s) k = map_of (AList.update k v t) k"
      by (rule map_of_assign_other)
    with p eq show ?thesis by (simp add: assign_Cons update_conv')
  qed
qed

lemma moved_raw: "map_of (properties (moved sat f)) ''raw'' = Some sat"
proof -
  let ?src = "AList.update ''raw'' sat (assign [] (properties f))"
  have "distinct (map fst ?src)"
    by (simp add: distinct_update distinct_assign)
  moreover have "(''raw'', sat) \<in> set ?src"
    by (metis update_conv' map_of_SomeD fun_upd_same)
  ultimately have "map_of (assign (properties f) ?src) ''raw'' = Some sat"
    by (rule map_of_assign_mem)
  then show ?thesis by (simp add: moved_def assign_single)
qed

lemma moved_geometry:
  "geometry f = Point c \<Longrightarrow>
   geometry (moved sat f) = Point (FromLonLat (JNum (Number (liveLon sat))) (JNum (Number (liveLat sat))))"
  by (simp add: moved_def)

lemma moveLive_eq:
  "moveLive sat i w =
     (if length (liveSatFeatures w) \<le> i then Inr w
      else if nullish sat then Inl TypeError
      else Inr (w\<lparr>heap := (heap w)[liveSatFeatures w ! i := moved sat (heap w ! (liveSatFeatures w ! i))]\<rparr>))"
  by (simp add: moveLive_def moved_def Let_def)

lemma forEachFrom_moveLive_frame:
  "forEachFrom moveLive xs i w = (w', e) \<Longrightarrow>
   \<exists>h'. w' = w\<lparr>heap := h'\<rparr> \<and> length h' = length (heap w) \<and>
        (\<forall>a. a \<notin> set (take (length xs) (drop i (liveSatFeatures w))) \<longrightarrow> h' ! a = heap w ! a)"
proof (induction xs arbitrary: i w)
  case Nil
  then have "w' = w\<lparr>heap := heap w\<rparr>" by simp
  then show ?case by blast
next
  case (Cons x xs)
  let ?refs = "liveSatFeatures w"
  show ?case
  proof (cases "moveLive x i w")
    case (Inl err)
    with Cons.prems have "w' = w\<lparr>heap := heap w\<rparr>" by simp
    then show ?thesis by blast
  next
    case (Inr w1)
    with Cons.prems have run: "forEachFrom moveLive xs (Suc i) w1 = (w', e)" by simp
    from Cons.IH [OF run] obtain h' where h': "w' = w1\<lparr>heap := h'\<rparr>"
      "length h' = length (heap w1)"
      "\<forall>a. a \<notin> set (take (length xs) (drop (Suc i) (liveSatFeatures w1))) \<longrightarrow> h' ! a = heap w1 ! a"
      by blast
    show ?thesis
    proof (cases "length ?refs \<le> i")
      case True
      with Inr have "w1 = w" by (simp add: moveLive_eq)
      with h' True show ?thesis by auto
    next
      case False
      with Inr have w1: "w1 = w\<lparr>heap := (heap w)[?refs ! i := moved x (heap w ! (?refs ! i))]\<rparr>"
        by (simp add: moveLive_eq split: if_splits)
      from False have dr: "drop i ?refs = ?refs ! i # drop (Suc i) ?refs"
        by (simp add: Cons_nth_drop_Suc)
      have "w' = w\<lparr>heap := h'\<rparr>" using h'(1) w1 by simp
      moreover have "length h' = length (heap w)" using h'(2) w1 by simp
      moreover have "\<forall>a. a \<notin> set (take (length (x # xs)) (drop i ?refs)) \<longrightarrow> h' ! a = heap w ! a"
        using h'(3) w1 dr by auto
      ultimately show ?thesis by blast
    qed
  qed
qed

lemma forEachFrom_moveLive_exact:
  assumes "distinct (liveSatFeatures w)"
    and "\<forall>r \<in> set (liveSatFeatures w). r < length (heap w)"
    and "\<forall>s \<in> set xs. \<not> nullish s"
  shows "\<exists>h'. forEachFrom moveLive xs i w = (w\<lparr>heap := h'\<rparr>, None) \<and>
           length h' = length (heap w) \<and>
           (\<forall>j < length (liveSatFeatures w).
              h' ! (liveSatFeatures w ! j) =
                (if i \<le> j \<and> j < i + length xs
                 then moved (xs ! (j - i)) (heap w ! (liveSatFeatures w ! j))
                 else heap w ! (liveSatFeatures w ! j)))"
  using assms
proof (induction xs arbitrary: i w)
  case Nil
  have "forEachFrom moveLive [] i w = (w\<lparr>heap := heap w\<rparr>, None)" by simp
  then show ?case by fastforce
next
  case (Cons x xs)
  let ?refs = "liveSatFeatures w"
  from Cons.prems have x: "\<not> nullish x" and xs: "\<forall>s \<in> set xs. \<not> nullish s" by auto
  show ?case
  proof (cases "length ?refs \<le> i")
    case True
    with x have step: "moveLive x i w = Inr w" by (simp add: moveLive_eq)
    from Cons.IH [OF Cons.prems(1) Cons.prems(2) xs, of "Suc i"] obtain h' where
      h': "forEachFrom moveLive xs (Suc i) w = (w\<lparr>heap := h'\<rparr>, None)"
          "length h' = length (heap w)"
          "\<forall>j < length ?refs. h' ! (?refs ! j) =
                (if Suc i \<le> j \<and> j < Suc i + length xs
                 then moved (xs ! (j - Suc i)) (heap w ! (?refs ! j))
                 else heap w ! (?refs ! j))"
      by blast
    from step h'(1) have "forEachFrom moveLive (x # xs) i w = (w\<lparr>heap := h'\<rparr>, None)" by simp
    moreover from h'(3) True have "\<forall>j < length ?refs. h' ! (?refs ! j) =
                (if i \<le> j \<and> j < i + length (x # xs)
                 then moved ((x # xs) ! (j - i)) (heap w ! (?refs ! j))
                 else heap w ! (?refs ! j))" by auto
    ultimately show ?thesis using h'(2) by blast
  next
    case False
    define w1 where "w1 = w\<lparr>heap := (heap w)[?refs ! i := moved x (heap w ! (?refs ! i))]\<rparr>"
    from False x have step: "moveLive x i w = Inr w1" by (simp add: moveLive_eq w1_def)
    have refs1: "liveSatFeatures w1 = ?refs" and len1: "length (heap w1) = length (heap w)"
      by (simp_all add: w1_def)
    from Cons.prems(1,2) have p1: "distinct (liveSatFeatures w1)"
      and p2: "\<forall>r \<in> set (liveSatFeatures w1). r < length (heap w1)"
      by (simp_all add: refs1 len1)
    from Cons.IH [OF p1 p2 xs, of "Suc i"] obtain h' where
      h': "forEachFrom moveLive xs (Suc i) w1 = (w1\<lparr>heap := h'\<rparr>, None)"
          "length h' = length (heap w)"
          "\<forall>j < length ?refs. h' ! (?refs ! j) =
                (if Suc i \<le> j \<and> j < Suc i + length xs
                 then moved (xs ! (j - Suc i)) (heap w1 ! (?refs ! j))
                 else heap w1 ! (?refs ! j))"
      unfolding refs1 len1 by blast
    have w1h: "w1\<lparr>heap := h'\<rparr> = w\<lparr>heap := h'\<rparr>" by (simp add: w1_def)
    from step h'(1) w1h have run: "forEachFrom moveLive (x # xs) i w = (w\<lparr>heap := h'\<rparr>, None)"
      by simp
    have at: "heap w1 ! (?refs ! j) =
        (if j = i then moved x (heap w ! (?refs ! i)) else heap w ! (?refs ! j))"
      if "j < length ?refs" for j
    proof -
      from False have i: "i < length ?refs" by simp
      from Cons.prems(2) that have "?refs ! j < length (heap w)" by simp
      moreover from Cons.prems(1) that i have "?refs ! j = ?refs ! i \<longleftrightarrow> j = i"
        by (simp add: nth_eq_iff_index_eq)
      ultimately show ?thesis by (auto simp: w1_def)
    qed
    have "h' ! (?refs ! j) =
                (if i \<le> j \<and> j < i + length (x # xs)
                 then moved ((x # xs) ! (j - i)) (heap w ! (?refs ! j))
                 else heap w ! (?refs ! j))" if j: "j < length ?refs" for j
    proof (cases "j = i")
      case True
      with h'(3) j at [OF j] show ?thesis by simp
    next
      case False
      with h'(3) j at [OF j] show ?thesis by (auto simp: nth_Cons')
    qed
    with run h'(2) show ?thesis by blast
  qed
qed

lemma filterBoolean_Some: "filterBoolean (map Some fs) = fs"
  by (induction fs) (simp_all add: filterBoolean_def)

lemma liveMarker_Some:
  "\<not> nullish s \<Longrightarrow>
   \<exists>f. liveMarker s = Inr (Some f) \<and>
       geometry f = Point (FromLonLat (JNum (Number (liveLon s))) (JNum (Number (liveLat s))))"
  by (simp add: liveMarker_def createMarker_def Let_def)

lemma mapE_liveMarker:
  "\<forall>s \<in> set xs. \<not> nullish s \<Longrightarrow>
   \<exists>fs. mapE liveMarker xs = Inr (map Some fs) \<and> length fs = length xs \<and>
        (\<forall>i < length xs. geometry (fs ! i) =
           Point (FromLonLat (JNum (Number (liveLon (xs ! i)))) (JNum (Number (liveLat (xs ! i))))))"
proof (induction xs)
  case Nil
  show ?case by simp
next
  case (Cons x xs)
  then obtain fs where fs: "mapE liveMarker xs = Inr (map Some fs)" "length fs = length xs"
    "\<forall>i < length xs. geometry (fs ! i) =
           Point (FromLonLat (JNum (Number (liveLon (xs ! i)))) (JNum (Number (liveLat (xs ! i)))))"
    by auto
  from Cons.prems obtain f where f: "liveMarker x = Inr (Some f)"
    "geometry f = Point (FromLonLat (JNum (Number (liveLon x))) (JNum (Number (liveLat x))))"
    using liveMarker_Some [of x] by auto
  have "mapE liveMarker (x # xs) = Inr (map Some (f # fs))" using f(1) fs(1) by simp
  moreover have "length (f # fs) = length (x # xs)" using fs(2) by simp
  moreover have "\<forall>i < length (x # xs). geometry ((f # fs) ! i) =
           Point (FromLonLat (JNum (Number (liveLon ((x # xs) ! i)))) (JNum (Number (liveLat ((x # xs) ! i)))))"
    using f(2) fs(3) by (auto simp: nth_Cons split: nat.splits)
  ultimately show ?case by blast
qed

lemma loadJSON_arrived: "loadJSON (arrived v) = Inr v"
  by (simp add: loadJSON_def arrived_def)

lemma first_response:
  assumes "liveSatLayer w0 = None" and "\<forall>s \<in> set xs. \<not> nullish s"
  shows "\<exists>fs. animateLiveSatellites (arrived (JArr xs)) w0 =
           w0\<lparr>heap := heap w0 @ fs,
              liveSatFeatures := [length (heap w0) ..< length (heap w0) + length xs],
              mapLayers := mapLayers w0 @
                [Vector (layerCount w0) [length (heap w0) ..< length (heap w0) + length xs]],
              layerCount := Suc (layerCount w0),
              liveSatLayer :=
                Some (Vector (layerCount w0) [length (heap w0) ..< length (heap w0) + length xs])\<rparr> \<and>
           length fs = length xs \<and>
           (\<forall>i < length xs. geometry (fs ! i) =
              Point (FromLonLat (JNum (Number (liveLon (xs ! i)))) (JNum (Number (liveLat (xs ! i))))))"
proof -
  from mapE_liveMarker [OF assms(2)] obtain fs where
    fs: "mapE liveMarker xs = Inr (map Some fs)" "length fs = length xs"
    "\<forall>i < length xs. geometry (fs ! i) =
           Point (FromLonLat (JNum (Number (liveLon (xs ! i)))) (JNum (Number (liveLat (xs ! i)))))"
    by blast
  have "animateLiveSatellites (arrived (JArr xs)) w0 =
           w0\<lparr>heap := heap w0 @ fs,
              liveSatFeatures := [length (heap w0) ..< length (heap w0) + length xs],
              mapLayers := mapLayers w0 @
                [Vector (layerCount w0) [length (heap w0) ..< length (heap w0) + length xs]],
              layerCount := Suc (layerCount w0),
              liveSatLayer :=
                Some (Vector (layerCount w0) [length (heap w0) ..< length (heap w0) + length xs])\<rparr>"
    using assms(1) fs(1,2)
    by (simp add: animateLiveSatellites_def loadJSON_arrived arrayMap_def filterBoolean_Some
        allocate_def addLayerFromFeatures_def Let_def)
  with fs(2,3) show ?thesis by blast
qed

lemma animate_later:
  assumes "liveSatLayer w \<noteq> None"
  shows "animateLiveSatellites (arrived (JArr xs)) w =
     (case forEachFrom moveLive xs 0 w of (w', None) \<Rightarrow> w' | (w', Some e) \<Rightarrow> warn e w')"
proof -
  from assms obtain l where "liveSatLayer w = Some l" by auto
  then show ?thesis
    by (simp add: animateLiveSatellites_def loadJSON_arrived)
qed

lemma later_response_frame:
  assumes "liveSatLayer w \<noteq> None"
  shows "\<exists>h' c'. animateLiveSatellites (arrived (JArr xs)) w = w\<lparr>heap := h', console := c'\<rparr> \<and>
           length h' = length (heap w) \<and>
           (\<forall>a. a \<notin> set (take (length xs) (liveSatFeatures w)) \<longrightarrow> h' ! a = heap w ! a)"
proof -
  obtain w' e where run: "forEachFrom moveLive xs 0 w = (w', e)" by (cases "forEachFrom moveLive xs 0 w")
  from forEachFrom_moveLive_frame [OF run] obtain h' where h': "w' = w\<lparr>heap := h'\<rparr>"
    "length h' = length (heap w)"
    "\<forall>a. a \<notin> set (take (length xs) (liveSatFeatures w)) \<longrightarrow> h' ! a = heap w ! a"
    by auto
  have "\<exists>c'. animateLiveSatellites (arrived (JArr xs)) w = w\<lparr>heap := h', console := c'\<rparr>"
  proof (cases e)
    case None
    with run h'(1) have "animateLiveSatellites (arrived (JArr xs)) w = w\<lparr>heap := h', console := console w\<rparr>"
      by (simp add: animate_later [OF assms])
    then show ?thesis ..
  next
    case (Some err)
    with run h'(1) have "animateLiveSatellites (arrived (JArr xs)) w =
        w\<lparr>heap := h', console := console w @ [Warn ''[LIVE SATS] fetch failed:'' err]\<rparr>"
      by (simp add: animate_later [OF assms] warn_def)
    then show ?thesis ..
  qed
  with h'(2,3) show ?thesis by blast
qed

lemma later_response_exact:
  assumes "liveSatLayer w \<noteq> None" and "liveFeaturesOk w" and "\<forall>s \<in> set xs. \<not> nullish s"
  shows "\<exists>h'. animateLiveSatellites (arrived (JArr xs)) w = w\<lparr>heap := h'\<rparr> \<and>
           (\<forall>j < length (liveSatFeatures w). j < length xs \<longrightarrow>
              h' ! (liveSatFeatures w ! j) = moved (xs ! j) (heap w ! (liveSatFeatures w ! j)))"
proof -
  from assms(2) have d: "distinct (liveSatFeatures w)"
    and b: "\<forall>r \<in> set (liveSatFeatures w). r < length (heap w)"
    by (simp_all add: liveFeaturesOk_def list_all_iff)
  from forEachFrom_moveLive_exact [OF d b assms(3), of 0] obtain h' where
    h': "forEachFrom moveLive xs 0 w = (w\<lparr>heap := h'\<rparr>, None)"
    "\<forall>j < length (liveSatFeatures w).
              h' ! (liveSatFeatures w ! j) =
                (if 0 \<le> j \<and> j < 0 + length xs
                 then moved (xs ! (j - 0)) (heap w ! (liveSatFeatures w ! j))
                 else heap w ! (liveSatFeatures w ! j))"
    by blast
  from h'(1) have "animateLiveSatellites (arrived (JArr xs)) w = w\<lparr>heap := h'\<rparr>"
    by (simp add: animate_later [OF assms(1)])
  with h'(2) show ?thesis by auto
qed

lemma numericEntry_Number:
  "numericEntry s \<Longrightarrow> JNum (Number (liveLon s)) = liveLon s \<and> JNum (Number (liveLat s)) = liveLat s"
  by (auto simp: numericEntry_def typeof_number)

lemma first_response_ok:
  assumes "liveSatLayer w0 = None" and "\<forall>s \<in> set xs. \<not> nullish s"
  defines "w1 \<equiv> animateLiveSatellites (arrived (JArr xs)) w0"
  shows "liveSatLayer w1 \<noteq> None" and "liveFeaturesOk w1" and "length (liveSatFeatures w1) = length xs"
proof -
  let ?n = "length (heap w0)"
  from first_response [OF assms(1,2)] obtain fs where
    w1: "w1 = w0\<lparr>heap := heap w0 @ fs,
              liveSatFeatures := [?n ..< ?n + length xs],
              mapLayers := mapLayers w0 @ [Vector (layerCount w0) [?n ..< ?n + length xs]],
              layerCount := Suc (layerCount w0),
              liveSatLayer := Some (Vector (layerCount w0) [?n ..< ?n + length xs])\<rparr>"
    and len: "length fs = length xs"
    and geo: "\<forall>i < length xs. geometry (fs ! i) =
              Point (FromLonLat (JNum (Number (liveLon (xs ! i)))) (JNum (Number (liveLat (xs ! i)))))"
    unfolding w1_def by blast
  show "liveSatLayer w1 \<noteq> None" by (simp add: w1)
  show "length (liveSatFeatures w1) = length xs" by (simp add: w1)
  have "r < length (heap w1) \<and> isPoint (geometry (heap w1 ! r))"
    if "r \<in> set (liveSatFeatures w1)" for r
  proof -
    from that have r: "?n \<le> r" "r < ?n + length xs" by (simp_all add: w1)
    then have "heap w1 ! r = fs ! (r - ?n)" by (simp add: w1 nth_append)
    moreover from r geo have "geometry (fs ! (r - ?n)) =
        Point (FromLonLat (JNum (Number (liveLon (xs ! (r - ?n))))) (JNum (Number (liveLat (xs ! (r - ?n))))))"
      by simp
    ultimately show ?thesis using r len by (simp add: w1)
  qed
  moreover have "distinct (liveSatFeatures w1)" by (simp add: w1)
  ultimately show "liveFeaturesOk w1" by (simp add: liveFeaturesOk_def list_all_iff)
qed

lemma numericEntry_not_nullish: "numericEntry s \<Longrightarrow> \<not> nullish s"
  by (simp add: numericEntry_def)

text \<open>
  C3. Two responses of equal length whose entries all have numeric coordinates, the
  first one building the live features: after the second, the array of live features is
  the same array, as long as the responses, and every live marker is at the projection of
  the coordinates of the entry at its index. And for any later response at all: the
  array of live features, the live layer and the layers of the map are unchanged, no
  feature object is created, and a feature whose index the response does not reach is
  what it was.
\<close>

theorem live_update_by_position:
  "(liveSatLayer w0 = None \<and> (\<forall>s \<in> set xs1. numericEntry s) \<and> (\<forall>s \<in> set xs2. numericEntry s) \<and>
    length xs1 = length xs2 \<longrightarrow>
      (let w1 = animateLiveSatellites (arrived (JArr xs1)) w0;
           w2 = animateLiveSatellites (arrived (JArr xs2)) w1
       in liveSatFeatures w2 = liveSatFeatures w1 \<and>
          length (liveSatFeatures w2) = length xs2 \<and>
          (\<forall>i < length xs2. geometry (heap w2 ! (liveSatFeatures w2 ! i)) =
             Point (FromLonLat (liveLon (xs2 ! i)) (liveLat (xs2 ! i))))))
   \<and> (liveSatLayer w \<noteq> None \<and> distinct (liveSatFeatures w) \<longrightarrow>
      (let w' = animateLiveSatellites (arrived (JArr xs)) w
       in liveSatFeatures w' = liveSatFeatures w \<and>
          liveSatLayer w' = liveSatLayer w \<and>
          mapLayers w' = mapLayers w \<and>
          length (heap w') = length (heap w) \<and>
          (\<forall>i. length xs \<le> i \<and> i < length (liveSatFeatures w) \<longrightarrow>
             heap w' ! (liveSatFeatures w ! i) = heap w ! (liveSatFeatures w ! i))))"
proof (intro conjI impI)
  assume a: "liveSatLayer w0 = None \<and> (\<forall>s \<in> set xs1. numericEntry s) \<and>
    (\<forall>s \<in> set xs2. numericEntry s) \<and> length xs1 = length xs2"
  define w1 where "w1 = animateLiveSatellites (arrived (JArr xs1)) w0"
  define w2 where "w2 = animateLiveSatellites (arrived (JArr xs2)) w1"
  from a have n1: "\<forall>s \<in> set xs1. \<not> nullish s" and n2: "\<forall>s \<in> set xs2. \<not> nullish s"
    by (simp_all add: numericEntry_not_nullish)
  from a have none: "liveSatLayer w0 = None" by simp
  note ok = first_response_ok [OF none n1, folded w1_def]
  from later_response_exact [OF ok(1) ok(2) n2] obtain h' where
    w2: "w2 = w1\<lparr>heap := h'\<rparr>"
    and h': "\<forall>j < length (liveSatFeatures w1). j < length xs2 \<longrightarrow>
              h' ! (liveSatFeatures w1 ! j) = moved (xs2 ! j) (heap w1 ! (liveSatFeatures w1 ! j))"
    unfolding w2_def by blast
  have geo: "geometry (heap w2 ! (liveSatFeatures w2 ! i)) =
             Point (FromLonLat (liveLon (xs2 ! i)) (liveLat (xs2 ! i)))" if i: "i < length xs2" for i
  proof -
    from i a ok(3) have i1: "i < length (liveSatFeatures w1)" by simp
    then have "liveSatFeatures w1 ! i \<in> set (liveSatFeatures w1)" by simp
    with ok(2) have "isPoint (geometry (heap w1 ! (liveSatFeatures w1 ! i)))"
      by (simp add: liveFeaturesOk_def list_all_iff)
    then obtain c where "geometry (heap w1 ! (liveSatFeatures w1 ! i)) = Point c"
      by (cases "geometry (heap w1 ! (liveSatFeatures w1 ! i))") simp_all
    then have "geometry (moved (xs2 ! i) (heap w1 ! (liveSatFeatures w1 ! i))) =
        Point (FromLonLat (JNum (Number (liveLon (xs2 ! i)))) (JNum (Number (liveLat (xs2 ! i)))))"
      by (rule moved_geometry)
    moreover from a i have "numericEntry (xs2 ! i)" by simp
    ultimately show ?thesis using h' i i1 w2 by (simp add: numericEntry_Number)
  qed
  from w2 ok(3) a geo
  show "let w1 = animateLiveSatellites (arrived (JArr xs1)) w0;
           w2 = animateLiveSatellites (arrived (JArr xs2)) w1
       in liveSatFeatures w2 = liveSatFeatures w1 \<and>
          length (liveSatFeatures w2) = length xs2 \<and>
          (\<forall>i < length xs2. geometry (heap w2 ! (liveSatFeatures w2 ! i)) =
             Point (FromLonLat (liveLon (xs2 ! i)) (liveLat (xs2 ! i))))"
    unfolding Let_def w1_def [symmetric] w2_def [symmetric] by simp
next
  assume b: "liveSatLayer w \<noteq> None \<and> distinct (liveSatFeatures w)"
  then have live: "liveSatLayer w \<noteq> None" and d: "distinct (liveSatFeatures w)" by simp_all
  from later_response_frame [OF live] obtain h' c' where
    w': "animateLiveSatellites (arrived (JArr xs)) w = w\<lparr>heap := h', console := c'\<rparr>"
    and len: "length h' = length (heap w)"
    and frame: "\<forall>a. a \<notin> set (take (length xs) (liveSatFeatures w)) \<longrightarrow> h' ! a = heap w ! a"
    by blast
  have "h' ! (liveSatFeatures w ! i) = heap w ! (liveSatFeatures w ! i)"
    if i: "length xs \<le> i" "i < length (liveSatFeatures w)" for i
  proof -
    have "liveSatFeatures w ! i \<notin> set (take (length xs) (liveSatFeatures w))"
    proof
      assume "liveSatFeatures w ! i \<in> set (take (length xs) (liveSatFeatures w))"
      then obtain j where j: "j < length (take (length xs) (liveSatFeatures w))"
        "take (length xs) (liveSatFeatures w) ! j = liveSatFeatures w ! i"
        by (auto simp: in_set_conv_nth)
      then have "j < length xs" "j < length (liveSatFeatures w)" "liveSatFeatures w ! j = liveSatFeatures w ! i"
        by simp_all
      with d i have "j = i" by (simp add: nth_eq_iff_index_eq)
      with \<open>j < length xs\<close> i show False by simp
    qed
    with frame show ?thesis by simp
  qed
  with w' len
  show "let w' = animateLiveSatellites (arrived (JArr xs)) w
       in liveSatFeatures w' = liveSatFeatures w \<and>
          liveSatLayer w' = liveSatLayer w \<and>
          mapLayers w' = mapLayers w \<and>
          length (heap w') = length (heap w) \<and>
          (\<forall>i. length xs \<le> i \<and> i < length (liveSatFeatures w) \<longrightarrow>
             heap w' ! (liveSatFeatures w ! i) = heap w ! (liveSatFeatures w ! i))"
    by (simp add: Let_def)
qed

text \<open>
  C5. When \<^verbatim>\<open>loadJSON\<close> throws (the request fails, the status is not ok, or the body is
  no JSON), the tick changes nothing but the console, where it logs the error: the array
  of live features, every feature object, the live layer and the layers of the map are
  what they were.
\<close>

theorem fetch_failure_keeps_state:
  "loadJSON fetched = Inl e \<Longrightarrow>
   animateLiveSatellites fetched w =
     w\<lparr>console := console w @ [Warn ''[LIVE SATS] fetch failed:'' e]\<rparr> \<and>
   liveSatFeatures (animateLiveSatellites fetched w) = liveSatFeatures w \<and>
   heap (animateLiveSatellites fetched w) = heap w \<and>
   liveSatLayer (animateLiveSatellites fetched w) = liveSatLayer w \<and>
   mapLayers (animateLiveSatellites fetched w) = mapLayers w"
  by (simp add: animateLiveSatellites_def warn_def)

lemma loadJSON_fails:
  "(\<exists>e. loadJSON fetched = Inl e) \<longleftrightarrow>
     (case fetched of None \<Rightarrow> True | Some res \<Rightarrow> \<not> ok res \<or> json res = None)"
  by (auto simp: loadJSON_def split: option.splits)

lemma startWorld_eval:
  "startWorld sat gs orb =
     \<lparr> heap = [\<lparr> geometry = Point (FromLonLat (JNum (Fin (dbl 107.6))) (JNum (Fin (- dbl 6.9)))),
                 properties = [(''name'', JStr ''Observer''), (''type'', JStr ''observer''),
                               (''description'', JStr ''Observer location'')],
                 style = Some \<lparr> style_geometry = None,
                                style_image = Some (Circle 6 ''green'' (Stroke ''#fff'' 1)),
                                style_stroke = None \<rparr> \<rparr>],
       mapLayers = [Tile ''osm'', Vector 0 [0]], layerCount = 1,
       currentBaseLayer = Tile ''osm'', liveSatLayer = None, liveSatFeatures = [],
       satellite_info = sat, ground_station_info = gs, orbit_info = orb, console = [] \<rparr>"
  by (simp add: startWorld_def observerFeature_def createMarker_def allocate_def
      addLayerFromFeatures_def filterBoolean_def assign_def Let_def)

lemmas live_defs = animateLiveSatellites_def loadJSON_def arrived_def arrayMap_def liveMarker_def
  createMarker_def liveLon_def liveLat_def js_or_def js_nc_def nullish_def assign_def
  filterBoolean_def allocate_def addLayerFromFeatures_def moveLive_def warn_def Let_def

text \<open>
  C2. A later response whose entry has the latitude \<^verbatim>\<open>"bad"\<close>: the claim has the
  geometry update skipped, the marker staying at (2, 1). The updater moves it to
  longitude 5 and latitude \<^verbatim>\<open>NaN\<close>, the test on the types coming after \<^verbatim>\<open>Number\<close>.
\<close>

theorem live_update_bad_latitude:
  "(let w1 = animateLiveSatellites (arrived (JArr [JObj [(''name'', JStr ''A''), (''latitude'', JNum (Fin 1)), (''longitude'', JNum (Fin 2))]]))
              (startWorld None None None);
        w2 = animateLiveSatellites (arrived (JArr [JObj [(''name'', JStr ''A''), (''latitude'', JStr ''bad''), (''longitude'', JNum (Fin 5))]])) w1
    in geometry (heap w1 ! (liveSatFeatures w1 ! 0)) = Point (FromLonLat (JNum (Fin 2)) (JNum (Fin 1))) \<and>
       geometry (heap w2 ! (liveSatFeatures w2 ! 0)) = Point (FromLonLat (JNum (Fin 5)) (JNum NaN)))"
proof -
  let ?w1 = "\<lparr>heap =
        [\<lparr>geometry = Point (FromLonLat (JNum (Fin (dbl 107.6))) (JNum (Fin (- dbl 6.9)))),
          properties = [(''name'', JStr ''Observer''), (''type'', JStr ''observer''),
                        (''description'', JStr ''Observer location'')],
          style = Some \<lparr>style_geometry = None,
                         style_image = Some (Circle 6 ''green'' (Stroke ''#fff'' 1)),
                         style_stroke = None\<rparr>\<rparr>,
         \<lparr>geometry = Point (FromLonLat (JNum (Fin 2)) (JNum (Fin 1))),
          properties =
            [(''name'', JStr ''A''), (''type'', JStr ''satellite''), (''raw'', JObj [(''name'', JStr ''A''), (''latitude'', JNum (Fin 1)), (''longitude'', JNum (Fin 2))]),
             (''id'', JStr ''A'')],
          style = Some \<lparr>style_geometry = None,
                         style_image = Some (Circle 6 ''red'' (Stroke ''#fff'' 1)),
                         style_stroke = None\<rparr>\<rparr>],
       mapLayers = [Tile ''osm'', Vector 0 [0], Vector 1 [1]], layerCount = 2,
       currentBaseLayer = Tile ''osm'', liveSatLayer = Some (Vector 1 [1]),
       liveSatFeatures = [1], satellite_info = None, ground_station_info = None,
       orbit_info = None, console = []\<rparr>"
  let ?w2 = "\<lparr>heap =
        [\<lparr>geometry = Point (FromLonLat (JNum (Fin (dbl 107.6))) (JNum (Fin (- dbl 6.9)))),
          properties = [(''name'', JStr ''Observer''), (''type'', JStr ''observer''),
                        (''description'', JStr ''Observer location'')],
          style = Some \<lparr>style_geometry = None,
                         style_image = Some (Circle 6 ''green'' (Stroke ''#fff'' 1)),
                         style_stroke = None\<rparr>\<rparr>,
         \<lparr>geometry = Point (FromLonLat (JNum (Fin 5)) (JNum NaN)),
          properties =
            [(''name'', JStr ''A''), (''type'', JStr ''satellite''), (''raw'', JObj [(''name'', JStr ''A''), (''latitude'', JStr ''bad''), (''longitude'', JNum (Fin 5))]),
             (''id'', JStr ''A'')],
          style = Some \<lparr>style_geometry = None,
                         style_image = Some (Circle 6 ''red'' (Stroke ''#fff'' 1)),
                         style_stroke = None\<rparr>\<rparr>],
       mapLayers = [Tile ''osm'', Vector 0 [0], Vector 1 [1]], layerCount = 2,
       currentBaseLayer = Tile ''osm'', liveSatLayer = Some (Vector 1 [1]),
       liveSatFeatures = [1], satellite_info = None, ground_station_info = None,
       orbit_info = None, console = []\<rparr>"
  have w1: "animateLiveSatellites (arrived (JArr [JObj [(''name'', JStr ''A''), (''latitude'', JNum (Fin 1)), (''longitude'', JNum (Fin 2))]]))
              (startWorld None None None) = ?w1"
    by (simp add: startWorld_eval live_defs)
  have w2: "animateLiveSatellites (arrived (JArr [JObj [(''name'', JStr ''A''), (''latitude'', JStr ''bad''), (''longitude'', JNum (Fin 5))]])) ?w1 = ?w2"
    by (simp add: live_defs StringToNumber_bad)
  show ?thesis
    unfolding Let_def w1 w2 by simp
qed

theorem fetch_failure_keeps_state_witness:
  "loadJSON None = Inl NetworkError \<and>
   animateLiveSatellites None (startWorld None None None) =
     (startWorld None None None)\<lparr>console := [Warn ''[LIVE SATS] fetch failed:'' NetworkError]\<rparr> \<and>
   loadJSON (Some \<lparr>ok = False, status = 404, json = None\<rparr>) = Inl (HttpError 404) \<and>
   heap (animateLiveSatellites (Some \<lparr>ok = False, status = 404, json = None\<rparr>) (startWorld None None None)) =
     heap (startWorld None None None)"
  using fetch_failure_keeps_state [of None NetworkError "startWorld None None None"]
    fetch_failure_keeps_state [of "Some \<lparr>ok = False, status = 404, json = None\<rparr>" "HttpError 404"
      "startWorld None None None"]
  by (simp add: loadJSON_def startWorld_eval)

theorem live_update_by_position_witness:
  "(let w1 = animateLiveSatellites (arrived (JArr [JObj [(''latitude'', JNum (Fin 1)), (''longitude'', JNum (Fin 2))],
                                                   JObj [(''lat'', JNum (Fin 3)), (''lng'', JNum (Fin 4))]]))
              (startWorld None None None);
        w2 = animateLiveSatellites (arrived (JArr [JObj [(''latitude'', JNum (Fin 5)), (''longitude'', JNum (Fin 6))],
                                                   JObj [(''lat'', JNum (Fin 7)), (''lng'', JNum (Fin 8))]])) w1;
        w3 = animateLiveSatellites (arrived (JArr [JObj [(''latitude'', JNum (Fin 9)), (''longitude'', JNum (Fin 10))]])) w2
    in length (liveSatFeatures w2) = 2 \<and>
       liveSatFeatures w2 = liveSatFeatures w1 \<and>
       geometry (heap w2 ! (liveSatFeatures w2 ! 0)) = Point (FromLonLat (JNum (Fin 6)) (JNum (Fin 5))) \<and>
       geometry (heap w2 ! (liveSatFeatures w2 ! 1)) = Point (FromLonLat (JNum (Fin 8)) (JNum (Fin 7))) \<and>
       liveSatLayer w2 \<noteq> None \<and> distinct (liveSatFeatures w2) \<and>
       liveSatFeatures w3 = liveSatFeatures w2 \<and>
       heap w3 ! (liveSatFeatures w2 ! 1) = heap w2 ! (liveSatFeatures w2 ! 1))"
proof -
  let ?xs1 = "[JObj [(''latitude'', JNum (Fin 1)), (''longitude'', JNum (Fin 2))],
               JObj [(''lat'', JNum (Fin 3)), (''lng'', JNum (Fin 4))]]"
  let ?xs2 = "[JObj [(''latitude'', JNum (Fin 5)), (''longitude'', JNum (Fin 6))],
               JObj [(''lat'', JNum (Fin 7)), (''lng'', JNum (Fin 8))]]"
  let ?xs3 = "[JObj [(''latitude'', JNum (Fin 9)), (''longitude'', JNum (Fin 10))]]"
  let ?w1 = "\<lparr>heap =
          [\<lparr>geometry =
              Point
               (FromLonLat (JNum (Fin (dbl 107.6))) (JNum (Fin (- dbl 6.9)))),
              properties =
                [(''name'', JStr ''Observer''), (''type'', JStr ''observer''),
                 (''description'', JStr ''Observer location'')],
              style =
                Some
                 \<lparr>style_geometry = None,
                    style_image = Some (Circle 6 ''green'' (Stroke ''#fff'' 1)),
                    style_stroke = None\<rparr>\<rparr>,
           \<lparr>geometry = Point (FromLonLat (JNum (Fin 2)) (JNum (Fin 1))),
              properties =
                [(''name'', JStr ''LiveSat''), (''type'', JStr ''satellite''),
                 (''raw'',
                  JObj
                   [(''latitude'', JNum (Fin 1)), (''longitude'', JNum (Fin 2))]),
                 (''id'', JUndefined)],
              style =
                Some
                 \<lparr>style_geometry = None,
                    style_image = Some (Circle 6 ''red'' (Stroke ''#fff'' 1)),
                    style_stroke = None\<rparr>\<rparr>,
           \<lparr>geometry = Point (FromLonLat (JNum (Fin 4)) (JNum (Fin 3))),
              properties =
                [(''name'', JStr ''LiveSat''), (''type'', JStr ''satellite''),
                 (''raw'',
                  JObj [(''lat'', JNum (Fin 3)), (''lng'', JNum (Fin 4))]),
                 (''id'', JUndefined)],
              style =
                Some
                 \<lparr>style_geometry = None,
                    style_image = Some (Circle 6 ''red'' (Stroke ''#fff'' 1)),
                    style_stroke = None\<rparr>\<rparr>],
          mapLayers = [Tile ''osm'', Vector 0 [0], Vector 1 [1, 2]],
          layerCount = 2, currentBaseLayer = Tile ''osm'',
          liveSatLayer = Some (Vector 1 [1, 2]), liveSatFeatures = [1, 2],
          satellite_info = None, ground_station_info = None, orbit_info = None,
          console = []\<rparr>"
  let ?w2 = "\<lparr>heap =
          [\<lparr>geometry =
              Point
               (FromLonLat (JNum (Fin (dbl 107.6))) (JNum (Fin (- dbl 6.9)))),
              properties =
                [(''name'', JStr ''Observer''), (''type'', JStr ''observer''),
                 (''description'', JStr ''Observer location'')],
              style =
                Some
                 \<lparr>style_geometry = None,
                    style_image = Some (Circle 6 ''green'' (Stroke ''#fff'' 1)),
                    style_stroke = None\<rparr>\<rparr>,
           \<lparr>geometry = Point (FromLonLat (JNum (Fin 6)) (JNum (Fin 5))),
              properties =
                [(''name'', JStr ''LiveSat''), (''type'', JStr ''satellite''),
                 (''raw'',
                  JObj
                   [(''latitude'', JNum (Fin 5)), (''longitude'', JNum (Fin 6))]),
                 (''id'', JUndefined)],
              style =
                Some
                 \<lparr>style_geometry = None,
                    style_image = Some (Circle 6 ''red'' (Stroke ''#fff'' 1)),
                    style_stroke = None\<rparr>\<rparr>,
           \<lparr>geometry = Point (FromLonLat (JNum (Fin 8)) (JNum (Fin 7))),
              properties =
                [(''name'', JStr ''LiveSat''), (''type'', JStr ''satellite''),
                 (''raw'',
                  JObj [(''lat'', JNum (Fin 7)), (''lng'', JNum (Fin 8))]),
                 (''id'', JUndefined)],
              style =
                Some
                 \<lparr>style_geometry = None,
                    style_image = Some (Circle 6 ''red'' (Stroke ''#fff'' 1)),
                    style_stroke = None\<rparr>\<rparr>],
          mapLayers = [Tile ''osm'', Vector 0 [0], Vector 1 [1, 2]],
          layerCount = 2, currentBaseLayer = Tile ''osm'',
          liveSatLayer = Some (Vector 1 [1, 2]), liveSatFeatures = [1, 2],
          satellite_info = None, ground_station_info = None, orbit_info = None,
          console = []\<rparr>"
  let ?w3 = "\<lparr>heap =
          [\<lparr>geometry =
              Point
               (FromLonLat (JNum (Fin (dbl 107.6))) (JNum (Fin (- dbl 6.9)))),
              properties =
                [(''name'', JStr ''Observer''), (''type'', JStr ''observer''),
                 (''description'', JStr ''Observer location'')],
              style =
                Some
                 \<lparr>style_geometry = None,
                    style_image = Some (Circle 6 ''green'' (Stroke ''#fff'' 1)),
                    style_stroke = None\<rparr>\<rparr>,
           \<lparr>geometry = Point (FromLonLat (JNum (Fin 10)) (JNum (Fin 9))),
              properties =
                [(''name'', JStr ''LiveSat''), (''type'', JStr ''satellite''),
                 (''raw'',
                  JObj
                   [(''latitude'', JNum (Fin 9)),
                    (''longitude'', JNum (Fin 10))]),
                 (''id'', JUndefined)],
              style =
                Some
                 \<lparr>style_geometry = None,
                    style_image = Some (Circle 6 ''red'' (Stroke ''#fff'' 1)),
                    style_stroke = None\<rparr>\<rparr>,
           \<lparr>geometry = Point (FromLonLat (JNum (Fin 8)) (JNum (Fin 7))),
              properties =
                [(''name'', JStr ''LiveSat''), (''type'', JStr ''satellite''),
                 (''raw'',
                  JObj [(''lat'', JNum (Fin 7)), (''lng'', JNum (Fin 8))]),
                 (''id'', JUndefined)],
              style =
                Some
                 \<lparr>style_geometry = None,
                    style_image = Some (Circle 6 ''red'' (Stroke ''#fff'' 1)),
                    style_stroke = None\<rparr>\<rparr>],
          mapLayers = [Tile ''osm'', Vector 0 [0], Vector 1 [1, 2]],
          layerCount = 2, currentBaseLayer = Tile ''osm'',
          liveSatLayer = Some (Vector 1 [1, 2]), liveSatFeatures = [1, 2],
          satellite_info = None, ground_station_info = None, orbit_info = None,
          console = []\<rparr>"
  have w1: "animateLiveSatellites (arrived (JArr ?xs1)) (startWorld None None None) = ?w1"
    by (simp add: startWorld_eval live_defs)
  have w2: "animateLiveSatellites (arrived (JArr ?xs2)) ?w1 = ?w2"
    by (simp add: live_defs)
  have w3: "animateLiveSatellites (arrived (JArr ?xs3)) ?w2 = ?w3"
    by (simp add: live_defs)
  have num: "\<forall>s \<in> set ?xs1. numericEntry s" "\<forall>s \<in> set ?xs2. numericEntry s"
    by (simp_all add: numericEntry_def liveLon_def liveLat_def js_nc_def nullish_def)
  from live_update_by_position [of "startWorld None None None" ?xs1 ?xs2 ?w2 ?xs3] num
  show ?thesis
    unfolding Let_def w1 w2 w3 by (simp add: startWorld_eval)
qed

section \<open>The basemap switcher\<close>






section \<open>Clicks on the map\<close>

text \<open>
  C10. A click where the hit test finds no feature sets \<^verbatim>\<open>display\<close> to \<^verbatim>\<open>none\<close> on each
  of the three panels the page has and changes nothing else: no panel shows after it.
\<close>

theorem click_on_nothing:
  "singleclick None w =
     w\<lparr>satellite_info := map_option (\<lambda>p. p\<lparr>display := ''none''\<rparr>) (satellite_info w),
       ground_station_info := map_option (\<lambda>p. p\<lparr>display := ''none''\<rparr>) (ground_station_info w),
       orbit_info := map_option (\<lambda>p. p\<lparr>display := ''none''\<rparr>) (orbit_info w)\<rparr> \<and>
   \<not> visible (satellite_info (singleclick None w)) \<and>
   \<not> visible (ground_station_info (singleclick None w)) \<and>
   \<not> visible (orbit_info (singleclick None w))"
  by (simp add: singleclick_def clearViewerPanels_def hide_def visible_def split: option.splits)

lemma not_visible_hide: "\<not> visible (hide el)"
  by (simp add: visible_def hide_def split: option.splits)

lemma clear_fields:
  "satellite_info (clearViewerPanels w) = hide (satellite_info w)"
  "ground_station_info (clearViewerPanels w) = hide (ground_station_info w)"
  "orbit_info (clearViewerPanels w) = hide (orbit_info w)"
  by (simp_all add: clearViewerPanels_def)

lemma panelsVisible_clear: "panelsVisible (clearViewerPanels w) = 0"
  by (simp add: panelsVisible_def clear_fields not_visible_hide)

lemma show_at_most_one:
  assumes "panelsVisible w = 0"
  shows "panelsVisible (showSatelliteInfo props w) \<le> 1"
    and "panelsVisible (showStationInfo props w) \<le> 1"
    and "panelsVisible (showOrbitInfo props w) \<le> 1"
    and "panelsVisible (showInSatellitePanel html w) \<le> 1"
  using assms
  by (auto simp: panelsVisible_def showSatelliteInfo_def showStationInfo_def showOrbitInfo_def
      showInSatellitePanel_def split: option.splits sum.splits if_splits)

lemma singleclick_at_most_one: "panelsVisible (singleclick hit w) \<le> 1"
proof (cases hit)
  case None
  then show ?thesis by (simp add: singleclick_def panelsVisible_clear)
next
  case (Some f)
  with show_at_most_one [OF panelsVisible_clear]
  show ?thesis
    by (simp add: singleclick_def Let_def)
qed

lemma resolveType_station:
  "getProp (JObj (properties f)) ''type'' = JStr ''station'' \<Longrightarrow> resolveType f = JStr ''station''"
  "getProp (JObj (properties f)) ''type'' = JStr ''ground_station'' \<Longrightarrow>
     resolveType f = JStr ''ground_station''"
  by (simp_all add: resolveType_def js_or_def)

text \<open>
  C6. A click on a feature whose property \<^verbatim>\<open>type\<close> is \<^verbatim>\<open>"station"\<close> or
  \<^verbatim>\<open>"ground_station"\<close> clears the three panels and then shows the ground-station panel
  with the station's text, if the page has that panel: the satellite and orbit panels
  are hidden, the ground-station panel shows. And after a click on anything, whatever its
  type, at most one of the three panels shows.
\<close>

theorem click_on_station:
  "(getProp (JObj (properties f)) ''type'' = JStr ''station'' \<or>
    getProp (JObj (properties f)) ''type'' = JStr ''ground_station'' \<longrightarrow>
      (let w' = singleclick (Some f) w
       in w' = (clearViewerPanels w)\<lparr>ground_station_info :=
                  map_option (\<lambda>el. el\<lparr>display := ''block'', innerHTML := stationHtml (properties f)\<rparr>)
                    (ground_station_info w)\<rparr> \<and>
          \<not> visible (satellite_info w') \<and> \<not> visible (orbit_info w') \<and>
          (ground_station_info w \<noteq> None \<longrightarrow> visible (ground_station_info w'))))
   \<and> panelsVisible (singleclick hit w) \<le> 1"
proof (intro conjI impI)
  assume "getProp (JObj (properties f)) ''type'' = JStr ''station'' \<or>
    getProp (JObj (properties f)) ''type'' = JStr ''ground_station''"
  then have t: "resolveType f = JStr ''station'' \<or> resolveType f = JStr ''ground_station''"
    by (auto simp: resolveType_station)
  then have "singleclick (Some f) w = showStationInfo (properties f) (clearViewerPanels w)"
    by (auto simp: singleclick_def Let_def)
  then show "let w' = singleclick (Some f) w
       in w' = (clearViewerPanels w)\<lparr>ground_station_info :=
                  map_option (\<lambda>el. el\<lparr>display := ''block'', innerHTML := stationHtml (properties f)\<rparr>)
                    (ground_station_info w)\<rparr> \<and>
          \<not> visible (satellite_info w') \<and> \<not> visible (orbit_info w') \<and>
          (ground_station_info w \<noteq> None \<longrightarrow> visible (ground_station_info w'))"
    by (cases "ground_station_info w")
      (simp_all add: Let_def showStationInfo_def clearViewerPanels_def hide_def visible_def
        split: option.splits)
next
  show "panelsVisible (singleclick hit w) \<le> 1" by (rule singleclick_at_most_one)
qed

theorem click_on_station_witness:
  "(let f = \<lparr> geometry = Point (FromLonLat (JNum (Fin 20)) (JNum (Fin 10))),
               properties = [(''name'', JStr ''X''), (''type'', JStr ''station'')],
               style = None \<rparr>;
        shown = Some \<lparr> display = ''block'', innerHTML = Lit [] \<rparr>;
        w = startWorld shown shown shown;
        w' = singleclick (Some f) w
    in getProp (JObj (properties f)) ''type'' = JStr ''station'' \<and>
       ground_station_info w \<noteq> None \<and>
       visible (satellite_info w) \<and> visible (orbit_info w) \<and>
       \<not> visible (satellite_info w') \<and> \<not> visible (orbit_info w') \<and>
       visible (ground_station_info w') \<and> panelsVisible w' = 1)"
proof -
  let ?f = "\<lparr> geometry = Point (FromLonLat (JNum (Fin 20)) (JNum (Fin 10))),
               properties = [(''name'', JStr ''X''), (''type'', JStr ''station'')],
               style = None \<rparr>"
  let ?shown = "Some \<lparr> display = ''block'', innerHTML = Lit [] \<rparr>"
  let ?w = "startWorld ?shown ?shown ?shown"
  have t: "getProp (JObj (properties ?f)) ''type'' = JStr ''station''"
    by simp
  have g: "ground_station_info ?w \<noteq> None" "visible (satellite_info ?w)" "visible (orbit_info ?w)"
    by (simp_all add: startWorld_eval visible_def)
  from click_on_station [of ?f ?w "Some ?f"] t
  have "\<not> visible (satellite_info (singleclick (Some ?f) ?w)) \<and>
        \<not> visible (orbit_info (singleclick (Some ?f) ?w)) \<and>
        (ground_station_info ?w \<noteq> None \<longrightarrow>
           visible (ground_station_info (singleclick (Some ?f) ?w)))"
    unfolding Let_def by blast
  with g(1) have after: "\<not> visible (satellite_info (singleclick (Some ?f) ?w))"
    "\<not> visible (orbit_info (singleclick (Some ?f) ?w))"
    "visible (ground_station_info (singleclick (Some ?f) ?w))"
    by blast+
  then have "panelsVisible (singleclick (Some ?f) ?w) = 1"
    by (simp add: panelsVisible_def)
  with t g after show ?thesis
    unfolding Let_def by blast
qed

section \<open>Hover styles\<close>

lemma makeFeatureStyle_hover: "makeFeatureStyle f True = hoverStyles (makeFeatureStyle f False)"
  by (simp add: makeFeatureStyle_def Let_def hoverStyle_def dbl_1 jsMul_1 dbl_6 dbl_7
      dbl_dbl_008 [simplified] dbl_dbl_006 [simplified] split: option.splits)

lemma makeFeatureStyle_base:
  "resolveType f = JStr ''observer'' \<Longrightarrow>
     makeFeatureStyle f False =
       Single \<lparr> style_geometry = None,
                style_image = Some (Circle 7 ''green'' (Stroke ''#fff'' 1)), style_stroke = None \<rparr>"
  "resolveType f = JStr ''station'' \<Longrightarrow>
     makeFeatureStyle f False =
       Single \<lparr> style_geometry = None,
                style_image = Some (Icon ''assets/antenna.png'' (dbl 0.08) (0.5, 1) ''anonymous''),
                style_stroke = None \<rparr>"
  "resolveType f = JStr ''satellite'' \<Longrightarrow>
     makeFeatureStyle f False =
       Single \<lparr> style_geometry = None,
                style_image = Some (Icon ''assets/satellite.png'' (dbl 0.06) (0.5, 0.5) ''anonymous''),
                style_stroke = None \<rparr>"
  "resolveType f \<notin> {JStr ''observer'', JStr ''station'', JStr ''satellite'', JStr ''orbit''} \<Longrightarrow>
     makeFeatureStyle f False =
       Single \<lparr> style_geometry = None,
                style_image = Some (Circle 6 ''gray'' (Stroke ''#fff'' 1)), style_stroke = None \<rparr>"
  by (simp_all add: makeFeatureStyle_def Let_def ICONS_station_def ICONS_satellite_def
      dbl_1 jsMul_1 dbl_6 dbl_7 dbl_dbl_008 [simplified] dbl_dbl_006 [simplified])

lemma makeFeatureStyle_orbit_stroke:
  "resolveType f = JStr ''orbit'' \<Longrightarrow>
   \<exists>icon. makeFeatureStyle f False =
            Several (\<lparr> style_geometry = None, style_image = None,
                        style_stroke = Some (Stroke ''orange'' 2) \<rparr> # icon)"
  by (simp add: makeFeatureStyle_def Let_def split: option.splits)

lemma cssColor_orange: "cssColor ''#ffa500'' = cssColor ''orange''"
  by (simp add: cssColor_def digitVal_def)

text \<open>
  C9, as the code has it. For every feature the hover style is the plain style with the
  scale of each icon and the radius of each circle multiplied by 1.4 in the arithmetic of
  doubles, and with the stroke of a line at width 4 in the colour \<^verbatim>\<open>'#ffa500'\<close>; nothing
  else differs. The plain sizes are radius 7 (observer), scale 0.08 (station), scale 0.06
  (satellite) and radius 6 (fallback), the plain stroke of an orbit is \<^verbatim>\<open>'orange'\<close> at
  width 2. The hover colour is the colour \<^verbatim>\<open>'orange'\<close> itself, so the stroke gets wider
  and no brighter.
\<close>

theorem makeFeatureStyle_hover_effect:
  "makeFeatureStyle f True = hoverStyles (makeFeatureStyle f False) \<and>
   (resolveType f = JStr ''observer'' \<longrightarrow>
      makeFeatureStyle f False =
        Single \<lparr> style_geometry = None,
                 style_image = Some (Circle 7 ''green'' (Stroke ''#fff'' 1)),
                 style_stroke = None \<rparr>) \<and>
   (resolveType f = JStr ''station'' \<longrightarrow>
      makeFeatureStyle f False =
        Single \<lparr> style_geometry = None,
                 style_image = Some (Icon ''assets/antenna.png'' (dbl 0.08) (0.5, 1) ''anonymous''),
                 style_stroke = None \<rparr>) \<and>
   (resolveType f = JStr ''satellite'' \<longrightarrow>
      makeFeatureStyle f False =
        Single \<lparr> style_geometry = None,
                 style_image =
                   Some (Icon ''assets/satellite.png'' (dbl 0.06) (0.5, 0.5) ''anonymous''),
                 style_stroke = None \<rparr>) \<and>
   (resolveType f = JStr ''orbit'' \<longrightarrow>
      (\<exists>icon. makeFeatureStyle f False =
         Several (\<lparr> style_geometry = None, style_image = None,
                     style_stroke = Some (Stroke ''orange'' 2) \<rparr> # icon))) \<and>
   (resolveType f \<notin> {JStr ''observer'', JStr ''station'', JStr ''satellite'', JStr ''orbit''} \<longrightarrow>
      makeFeatureStyle f False =
        Single \<lparr> style_geometry = None,
                 style_image = Some (Circle 6 ''gray'' (Stroke ''#fff'' 1)),
                 style_stroke = None \<rparr>) \<and>
   cssColor ''#ffa500'' = cssColor ''orange''"
  using makeFeatureStyle_hover [of f] makeFeatureStyle_base [of f]
    makeFeatureStyle_orbit_stroke [of f] cssColor_orange
  by (intro conjI impI) assumption+

theorem makeFeatureStyle_hover_effect_witness:
  "resolveType \<lparr> geometry = Point (FromLonLat (JNum (Fin 20)) (JNum (Fin 10))),
                 properties = [(''name'', JStr ''X''), (''type'', JStr ''station'')],
                 style = None \<rparr> = JStr ''station'' \<and>
   makeFeatureStyle \<lparr> geometry = Point (FromLonLat (JNum (Fin 20)) (JNum (Fin 10))),
                      properties = [(''name'', JStr ''X''), (''type'', JStr ''station'')],
                      style = None \<rparr> False =
     Single \<lparr> style_geometry = None,
              style_image = Some (Icon ''assets/antenna.png'' (dbl 0.08) (0.5, 1) ''anonymous''),
              style_stroke = None \<rparr> \<and>
   makeFeatureStyle \<lparr> geometry = Point (FromLonLat (JNum (Fin 20)) (JNum (Fin 10))),
                      properties = [(''name'', JStr ''X''), (''type'', JStr ''station'')],
                      style = None \<rparr> True =
     Single \<lparr> style_geometry = None,
              style_image =
                Some (Icon ''assets/antenna.png'' (jsMul (dbl 0.08) (dbl 1.4)) (0.5, 1) ''anonymous''),
              style_stroke = None \<rparr>"
proof -
  let ?f = "\<lparr> geometry = Point (FromLonLat (JNum (Fin 20)) (JNum (Fin 10))),
               properties = [(''name'', JStr ''X''), (''type'', JStr ''station'')],
               style = None \<rparr>"
  have t: "resolveType ?f = JStr ''station''"
    by (simp add: resolveType_def js_or_def)
  note all = makeFeatureStyle_hover_effect [of ?f]
  from all t have plain: "makeFeatureStyle ?f False =
     Single \<lparr> style_geometry = None,
              style_image = Some (Icon ''assets/antenna.png'' (dbl 0.08) (0.5, 1) ''anonymous''),
              style_stroke = None \<rparr>"
    by blast
  from all have "makeFeatureStyle ?f True = hoverStyles (makeFeatureStyle ?f False)"
    by blast
  then have "makeFeatureStyle ?f True =
     Single \<lparr> style_geometry = None,
              style_image =
                Some (Icon ''assets/antenna.png'' (jsMul (dbl 0.08) (dbl 1.4)) (0.5, 1) ''anonymous''),
              style_stroke = None \<rparr>"
    unfolding plain by (simp add: hoverStyle_def)
  with t plain show ?thesis by blast
qed

text \<open>
  C9 as the claim states it fails on an orbit: its hover stroke is the plain one's colour,
  \<^verbatim>\<open>'#ffa500'\<close> and \<^verbatim>\<open>'orange'\<close> both being red 255, green 165, blue 0. The width
  goes from 2 to 4 and the scale of the icon from the double 0.06 to the double
  \<^verbatim>\<open>0.08399999999999999\<close>.
\<close>

theorem orbit_hover_colour:
  "makeFeatureStyle
     \<lparr> geometry = LineString [FromLonLat (JNum (Fin 2)) (JNum (Fin 1))],
       properties = [(''type'', JStr ''orbit''), (''name'', JStr ''ISS''),
                     (''period_min'', JNull),
                     (''raw'', JObj [(''name'', JStr ''ISS''),
                        (''track'', JArr [JArr [JNum (Fin 1), JNum (Fin 2)]])])],
       style = Some \<lparr> style_geometry = None, style_image = None,
                      style_stroke = Some (Stroke ''orange'' 2) \<rparr> \<rparr> False =
     Several [\<lparr> style_geometry = None, style_image = None,
                 style_stroke = Some (Stroke ''orange'' 2) \<rparr>,
              \<lparr> style_geometry = Some (Point (FromLonLat (JNum (Fin 2)) (JNum (Fin 1)))),
                 style_image =
                   Some (Icon ''assets/satellite.png'' (1080863910568919 / 18014398509481984)
                           (0.5, 0.5) ''anonymous''),
                 style_stroke = None \<rparr>] \<and>
   makeFeatureStyle
     \<lparr> geometry = LineString [FromLonLat (JNum (Fin 2)) (JNum (Fin 1))],
       properties = [(''type'', JStr ''orbit''), (''name'', JStr ''ISS''),
                     (''period_min'', JNull),
                     (''raw'', JObj [(''name'', JStr ''ISS''),
                        (''track'', JArr [JArr [JNum (Fin 1), JNum (Fin 2)]])])],
       style = Some \<lparr> style_geometry = None, style_image = None,
                      style_stroke = Some (Stroke ''orange'' 2) \<rparr> \<rparr> True =
     Several [\<lparr> style_geometry = None, style_image = None,
                 style_stroke = Some (Stroke ''#ffa500'' 4) \<rparr>,
              \<lparr> style_geometry = Some (Point (FromLonLat (JNum (Fin 2)) (JNum (Fin 1)))),
                 style_image =
                   Some (Icon ''assets/satellite.png'' (3026418949592973 / 36028797018963968)
                           (0.5, 0.5) ''anonymous''),
                 style_stroke = None \<rparr>] \<and>
   cssColor ''orange'' = Some (255, 165, 0) \<and> cssColor ''#ffa500'' = Some (255, 165, 0)"
  by (simp add: makeFeatureStyle_def resolveType_def js_or_def elements_def at_index_def
      ICONS_satellite_def cssColor_def digitVal_def Let_def dbl_1 jsMul_1
      dbl_dbl_006 [simplified] dbl_006 [simplified] jsMul_006_14 [simplified])

section \<open>Escaping in the panels\<close>

lemma escapeHtml_Nil: "escapeHtml [] = []"
  by (simp add: escapeHtml_def replaceAll_def)

lemma escapeHtml_Cons:
  "escapeHtml (c # s) =
     (if c = CHR ''&'' then ''&amp;'' else if c = CHR ''<'' then ''&lt;''
      else if c = CHR ''>'' then ''&gt;'' else [c]) @ escapeHtml s"
  by (simp add: escapeHtml_def replaceAll_def)

lemma escapeHtml_no_angle: "CHR ''<'' \<notin> set (escapeHtml s) \<and> CHR ''>'' \<notin> set (escapeHtml s)"
  by (induction s) (simp_all add: escapeHtml_Nil escapeHtml_Cons)

lemma escapeHtml_entities:
  "\<exists>ts. escapeHtml s = concat ts \<and>
        (\<forall>t \<in> set ts. t \<in> {''&amp;'', ''&lt;'', ''&gt;''} \<or>
                        (\<exists>c. t = [c] \<and> c \<notin> {CHR ''&'', CHR ''<'', CHR ''>''}))"
proof (induction s)
  case Nil
  have "escapeHtml [] = concat []" by (simp add: escapeHtml_Nil)
  then show ?case by fastforce
next
  case (Cons c s)
  then obtain ts where ts: "escapeHtml s = concat ts"
    "\<forall>t \<in> set ts. t \<in> {''&amp;'', ''&lt;'', ''&gt;''} \<or>
                        (\<exists>c. t = [c] \<and> c \<notin> {CHR ''&'', CHR ''<'', CHR ''>''})"
    by blast
  define t where "t = (if c = CHR ''&'' then ''&amp;'' else if c = CHR ''<'' then ''&lt;''
      else if c = CHR ''>'' then ''&gt;'' else [c])"
  have "escapeHtml (c # s) = concat (t # ts)" by (simp add: escapeHtml_Cons t_def ts(1))
  moreover have "t \<in> {''&amp;'', ''&lt;'', ''&gt;''} \<or>
                        (\<exists>c. t = [c] \<and> c \<notin> {CHR ''&'', CHR ''<'', CHR ''>''})"
    by (simp add: t_def)
  ultimately show ?case using ts(2) by (intro exI [of _ "t # ts"]) simp
qed

lemma readLatLon_number_or_null:
  "(fst (readLatLon props) = JNull \<or> typeof (fst (readLatLon props)) = ''number'') \<and>
   (snd (readLatLon props) = JNull \<or> typeof (snd (readLatLon props)) = ''number'')"
  by (auto simp: readLatLon_def Let_def find_Some_iff split: option.splits)

lemma escaped_formatNum: "v = JNull \<or> typeof v = ''number'' \<Longrightarrow> escaped (formatNum v dp)"
  by (cases v) (simp_all add: formatNum_def)

lemma escaped_smallTableRow: "escaped v \<Longrightarrow> escaped (smallTableRow k v)"
  by (simp add: smallTableRow_def)

lemma escaped_satelliteHtml: "escaped (satelliteHtml props)"
proof -
  have "escaped (formatNum (fst (readLatLon props)) 4)" "escaped (formatNum (snd (readLatLon props)) 4)"
    using readLatLon_number_or_null [of props] by (simp_all add: escaped_formatNum)
  then show ?thesis
    by (simp add: satelliteHtml_def Let_def escaped_smallTableRow split: jsval.splits)
qed

lemma escaped_stationHtml: "escaped (stationHtml props)"
proof -
  have "escaped (formatNum (fst (readLatLon props)) 4)" "escaped (formatNum (snd (readLatLon props)) 4)"
    using readLatLon_number_or_null [of props] by (simp_all add: escaped_formatNum)
  then show ?thesis
    by (simp add: stationHtml_def Let_def escaped_smallTableRow)
qed

lemma escaped_orbitHtml: "orbitHtml props = Inr h \<Longrightarrow> escaped h"
  by (auto simp: orbitHtml_def Let_def escaped_smallTableRow escaped_formatNum
      split: sum.splits if_splits)

lemma escaped_observerHtml: "escaped (observerHtml props)"
  by (simp add: observerHtml_def observerLocation_def at_index_def escaped_formatNum)

lemma escaped_unknownHtml: "escaped (unknownHtml g props)"
  by (simp add: unknownHtml_def)

text \<open>
  What the test \<^verbatim>\<open>escaped\<close> means for the string in the panel: it is the template text
  with pieces between that have no angle bracket, so that no piece opens or closes a tag.
\<close>

lemma concat_pieces:
  "(\<And>m. m \<in> set ms \<Longrightarrow> f m = concat (map snd (g m))) \<Longrightarrow>
   concat (map f ms) = concat (map snd (concat (map g ms)))"
  by (induction ms) simp_all

lemma render_pieces: "render p m = concat (map snd (pieces p m))"
proof (induction m)
  case (Concat ms)
  then show ?case by (simp add: concat_pieces)
qed simp_all

lemma escaped_pieces_angleFree:
  assumes "platformPlain p"
  shows "escaped m \<Longrightarrow> \<forall>(lit, t) \<in> set (pieces p m). \<not> lit \<longrightarrow> angleFree t"
proof (induction m)
  case (StringOf v)
  then obtain n where "v = JNum n" by (auto simp: typeof_number)
  with assms show ?case by (simp add: platformPlain_def)
next
  case (EscapeHtml m)
  show ?case using escapeHtml_no_angle [of "render p m"] by (simp add: angleFree_def)
qed (use assms in \<open>auto simp: platformPlain_def\<close>)

text \<open>
  C8. In the text each renderer writes into a panel (satellite, station, orbit, observer,
  unknown feature), whatever the properties of the feature, every string that is neither
  template text nor the print of a number is inside \<^verbatim>\<open>escapeHtml\<close> or
  \<^verbatim>\<open>encodeURIComponent\<close>. And for every string, the result of \<^verbatim>\<open>escapeHtml\<close> has no
  \<^verbatim>\<open><\<close> and no \<^verbatim>\<open>>\<close>, and is a sequence of the three entities and of single
  characters other than \<^verbatim>\<open>&\<close>, \<^verbatim>\<open><\<close> and \<^verbatim>\<open>>\<close>: an ampersand only starts an entity.
\<close>

theorem panels_escape_upstream_strings:
  "escaped (satelliteHtml props) \<and> escaped (stationHtml props) \<and>
   (\<forall>h. orbitHtml props = Inr h \<longrightarrow> escaped h) \<and>
   escaped (observerHtml props) \<and> escaped (unknownHtml g props) \<and>
   CHR ''<'' \<notin> set (escapeHtml s) \<and> CHR ''>'' \<notin> set (escapeHtml s) \<and>
   (\<exists>ts. escapeHtml s = concat ts \<and>
        (\<forall>t \<in> set ts. t \<in> {''&amp;'', ''&lt;'', ''&gt;''} \<or>
                        (\<exists>c. t = [c] \<and> c \<notin> {CHR ''&'', CHR ''<'', CHR ''>''})))"
proof (intro conjI allI impI)
  show "escaped (satelliteHtml props)" by (rule escaped_satelliteHtml)
  show "escaped (stationHtml props)" by (rule escaped_stationHtml)
  show "escaped h" if "orbitHtml props = Inr h" for h using that by (rule escaped_orbitHtml)
  show "escaped (observerHtml props)" by (rule escaped_observerHtml)
  show "escaped (unknownHtml g props)" by (rule escaped_unknownHtml)
  show "CHR ''<'' \<notin> set (escapeHtml s)" using escapeHtml_no_angle [of s] by simp
  show "CHR ''>'' \<notin> set (escapeHtml s)" using escapeHtml_no_angle [of s] by simp
  show "\<exists>ts. escapeHtml s = concat ts \<and>
        (\<forall>t \<in> set ts. t \<in> {''&amp;'', ''&lt;'', ''&gt;''} \<or>
                        (\<exists>c. t = [c] \<and> c \<notin> {CHR ''&'', CHR ''<'', CHR ''>''}))"
    by (rule escapeHtml_entities)
qed

theorem panels_escape_upstream_strings_witness:
  "escapeHtml ''<b>Tom & Jerry</b>'' = ''&lt;b&gt;Tom &amp; Jerry&lt;/b&gt;'' \<and>
   CHR ''<'' \<notin> set (escapeHtml ''<b>Tom & Jerry</b>'') \<and>
   escaped (stationHtml [(''raw'', JObj [(''name'', JStr ''<i>x</i>'')])]) \<and>
   (case orbitHtml [(''raw'', JObj [(''name'', JStr ''<i>x</i>'')])] of
      Inl e \<Rightarrow> False
    | Inr h \<Rightarrow> escaped h)"
proof -
  let ?props = "[(''raw'', JObj [(''name'', JStr ''<i>x</i>'')])]"
  note all = panels_escape_upstream_strings
    [of ?props "Point (FromLonLat JNull JNull)" "''<b>Tom & Jerry</b>''"]
  have e: "escapeHtml ''<b>Tom & Jerry</b>'' = ''&lt;b&gt;Tom &amp; Jerry&lt;/b&gt;''"
    by (simp add: escapeHtml_Nil escapeHtml_Cons)
  note station = all [THEN conjunct2, THEN conjunct1]
  note orbit = all [THEN conjunct2, THEN conjunct2, THEN conjunct1]
  note angle = all [THEN conjunct2, THEN conjunct2, THEN conjunct2, THEN conjunct2,
    THEN conjunct2, THEN conjunct1]
  obtain h where h: "orbitHtml ?props = Inr h"
    by (cases "orbitHtml ?props")
      (simp_all add: orbitHtml_def js_or_def orChain_def ncChain_def js_nc_def nullish_def
        elements_def Let_def)
  from orbit h have "escaped h" by simp
  with h have o: "case orbitHtml ?props of Inl e \<Rightarrow> False | Inr h \<Rightarrow> escaped h"
    by simp
  from e angle station o show ?thesis
    by (intro conjI)
qed

end
